theory Spec2Isabelle
  imports Main "HOL-Library.Word" "HOL-Library.Multiset" "HOL-Library.Product_Lexorder"
begin

unbundle bit_operations_syntax

section \<open>Instructions and operands (include/link.h)\<close>

text \<open>
  The operand kinds \<^verbatim>\<open>TYPE_*\<close> and the storage classes \<^verbatim>\<open>NAME_*\<close> of link.h.
\<close>

datatype atype =
    TYPE_NONE | TYPE_BRANCH | TYPE_TEXTSIZE | TYPE_MEM | TYPE_CONST | TYPE_FCONST
  | TYPE_SCONST | TYPE_REG | TYPE_ADDR | TYPE_SHIFT | TYPE_REGREG | TYPE_REGREG2
  | TYPE_INDIR

datatype aname = NAME_NONE | NAME_EXTERN | NAME_STATIC | NAME_AUTO | NAME_PARAM

text \<open>
  The type codes stored in \<open>Addr.etype\<close> and \<open>Var.etype\<close>. The enumeration lives
  in gc/go.h; the constructors are the names reg.c uses, \<open>Txxx\<close> is the code 0 and
  \<open>TOTHER\<close> stands for every code reg.c does not name.
\<close>

datatype etype =
    Txxx | TINT8 | TUINT8 | TINT16 | TUINT16 | TINT32 | TUINT32 | TINT64 | TUINT64
  | TINT | TUINT | TUINTPTR | TBOOL | TPTR32 | TPTR64 | TFLOAT32 | TFLOAT64 | TFUNC
  | TOTHER nat

text \<open>
  \<^verbatim>\<open>struct Addr\<close>. Registers are the numbers \<^verbatim>\<open>REG_*\<close>; \<open>sym\<close>, \<open>node\<close> and
  \<open>branch\<close> are pointers (\<open>None\<close> is the null pointer; a branch target is the
  position of the instruction in the chain). \<open>offset\<close> and \<open>width\<close> are int64.
  \<open>dval\<close> is the float64 member of the union, kept as its IEEE-754 bit pattern.
\<close>

record Addr =
  type :: atype
  reg :: int
  index :: int
  scale :: int
  name :: aname
  offset :: "64 word"
  sym :: "nat option"
  dval :: "64 word"
  branch :: "nat option"
  etype :: etype
  node :: "nat option"
  width :: "64 word"

text \<open>
  The opcodes named by cmd/6g/reg.c and cmd/8g/peep.c; \<open>AOTHER\<close> is any other.
  The byte, word and long forms of an arithmetic instruction (\<^verbatim>\<open>AADDB\<close>,
  \<^verbatim>\<open>AADDW\<close>, \<^verbatim>\<open>AADDL\<close>, ...) are one constructor with the operation and the
  size; the names of the source abbreviate them.
\<close>

datatype arithop =
    OADD | OSUB | OINC | ODEC | ONEG | ONOT | OMUL | OIMUL | OAND | OOR | OXOR | OSHL

datatype opsize = SB | SW | SL

datatype opcode =
    ANOP | ARET | ATEXT | ACALL | AJMP | AVARDEF | AVARKILL
  | ALEAL | AMOVB | AMOVW | AMOVL | AMOVQ | AMOVSS | AMOVSD | AMOVAPD
  | AMOVBLZX | AMOVWLZX | AMOVBLSX | AMOVWLSX
  | AARITH arithop opsize
  | AOTHER nat

abbreviation AADDB :: opcode where "AADDB \<equiv> AARITH OADD SB"
abbreviation AADDW :: opcode where "AADDW \<equiv> AARITH OADD SW"
abbreviation AADDL :: opcode where "AADDL \<equiv> AARITH OADD SL"
abbreviation ASUBB :: opcode where "ASUBB \<equiv> AARITH OSUB SB"
abbreviation ASUBW :: opcode where "ASUBW \<equiv> AARITH OSUB SW"
abbreviation ASUBL :: opcode where "ASUBL \<equiv> AARITH OSUB SL"
abbreviation AINCB :: opcode where "AINCB \<equiv> AARITH OINC SB"
abbreviation AINCW :: opcode where "AINCW \<equiv> AARITH OINC SW"
abbreviation AINCL :: opcode where "AINCL \<equiv> AARITH OINC SL"
abbreviation ADECB :: opcode where "ADECB \<equiv> AARITH ODEC SB"
abbreviation ADECW :: opcode where "ADECW \<equiv> AARITH ODEC SW"
abbreviation ADECL :: opcode where "ADECL \<equiv> AARITH ODEC SL"
abbreviation ANEGB :: opcode where "ANEGB \<equiv> AARITH ONEG SB"
abbreviation ANEGW :: opcode where "ANEGW \<equiv> AARITH ONEG SW"
abbreviation ANEGL :: opcode where "ANEGL \<equiv> AARITH ONEG SL"
abbreviation ANOTB :: opcode where "ANOTB \<equiv> AARITH ONOT SB"
abbreviation ANOTW :: opcode where "ANOTW \<equiv> AARITH ONOT SW"
abbreviation ANOTL :: opcode where "ANOTL \<equiv> AARITH ONOT SL"
abbreviation AMULB :: opcode where "AMULB \<equiv> AARITH OMUL SB"
abbreviation AMULW :: opcode where "AMULW \<equiv> AARITH OMUL SW"
abbreviation AMULL :: opcode where "AMULL \<equiv> AARITH OMUL SL"
abbreviation AIMULB :: opcode where "AIMULB \<equiv> AARITH OIMUL SB"
abbreviation AIMULW :: opcode where "AIMULW \<equiv> AARITH OIMUL SW"
abbreviation AIMULL :: opcode where "AIMULL \<equiv> AARITH OIMUL SL"
abbreviation AANDB :: opcode where "AANDB \<equiv> AARITH OAND SB"
abbreviation AANDW :: opcode where "AANDW \<equiv> AARITH OAND SW"
abbreviation AANDL :: opcode where "AANDL \<equiv> AARITH OAND SL"
abbreviation AORB :: opcode where "AORB \<equiv> AARITH OOR SB"
abbreviation AORW :: opcode where "AORW \<equiv> AARITH OOR SW"
abbreviation AORL :: opcode where "AORL \<equiv> AARITH OOR SL"
abbreviation AXORB :: opcode where "AXORB \<equiv> AARITH OXOR SB"
abbreviation AXORW :: opcode where "AXORW \<equiv> AARITH OXOR SW"
abbreviation AXORL :: opcode where "AXORL \<equiv> AARITH OXOR SL"
abbreviation ASHLB :: opcode where "ASHLB \<equiv> AARITH OSHL SB"
abbreviation ASHLW :: opcode where "ASHLW \<equiv> AARITH OSHL SW"
abbreviation ASHLL :: opcode where "ASHLL \<equiv> AARITH OSHL SL"

text \<open>
  \<^verbatim>\<open>struct Prog\<close>: the opcode and the two operands the optimizer reads. The field
  \<open>link\<close> is the order of the chain, a list of \<open>Prog\<close>.
\<close>

record Prog =
  as :: opcode
  "from" :: Addr
  to :: Addr

text \<open>\<^verbatim>\<open>zprog\<close>, the zeroed Prog (link.h), and its zeroed operand.\<close>

definition zaddr :: Addr where
  "zaddr = \<lparr>type = TYPE_NONE, reg = 0, index = 0, scale = 0, name = NAME_NONE,
            offset = 0, sym = None, dval = 0, branch = None, etype = Txxx,
            node = None, width = 0\<rparr>"

definition zprog :: Prog where
  "zprog = \<lparr>as = AOTHER 0, from = zaddr, to = zaddr\<rparr>"

text \<open>
  What \<open>proginfo\<close> reports about an instruction: the flags reg.c and peep.c test,
  and three register bitmaps.
\<close>

datatype pflag =
    LeftRead | LeftWrite | LeftAddr | RightRead | RightWrite | RightAddr
  | SetCarry | UseCarry | KillCarry | Call | Move | Break | Skip
  | SizeB | SizeW | SizeL | SizeQ | SizeF | SizeD

record ProgInfo =
  flags :: "pflag list"
  reguse :: "32 word"
  regset :: "32 word"
  regindex :: "32 word"

text \<open>
  The parts of the compiler that reg.c and peep.c use and that are declared in headers
  outside this source tree are parameters of the model: the register numbers
  \<^verbatim>\<open>REG_*\<close> and \<^verbatim>\<open>REGARG\<close> (6.out.h, 8.out.h), the size of the bit vectors
  \<^verbatim>\<open>BITS\<close> and the cap \<^verbatim>\<open>NVAR\<close> (gc/go.h), \<open>bitno\<close> (gc/bits.c), the
  instruction table \<open>proginfo\<close> (prog.c), \<open>noreturn\<close> (gc/popt.c) and, for peep.c,
  the \<open>RtoB\<close> of cmd/8g/reg.c (\<open>RtoB8\<close>).
\<close>

record target =
  REG_AL :: int
  REG_BL :: int
  REG_R15B :: int
  REG_AH :: int
  REG_BH :: int
  REG_AX :: int
  REG_SP :: int
  REG_BP :: int
  REG_DI :: int
  REG_R15 :: int
  REG_X0 :: int
  REG_X7 :: int
  REG_X15 :: int
  REGARG :: int
  BITS :: nat
  NVAR :: nat
  bitno :: "32 word \<Rightarrow> int"
  RtoB8 :: "int \<Rightarrow> 32 word"
  proginfo :: "Prog \<Rightarrow> ProgInfo"
  noreturn :: "Prog \<Rightarrow> bool"

section \<open>Bit vectors\<close>

text \<open>
  \<^verbatim>\<open>struct Bits { uint64 b[BITS]; }\<close>: a list of \<open>BITS\<close> words of 64 bits; bit
  \<open>n\<close> of the vector is bit \<open>n mod 64\<close> of word \<open>n div 64\<close>, as reg.c computes
  it (\<^verbatim>\<open>z = bn/64; bb = 1LL<<(bn%64)\<close>).
\<close>

type_synonym Bits = "64 word list"

definition zbits :: "target \<Rightarrow> Bits" where
  "zbits tg = replicate (BITS tg) 0"

text \<open>
  Modelled from the spec: the bit-vector helpers of gc/bits.c (\<open>bany\<close>, \<open>btest\<close>,
  \<open>biset\<close>, \<open>biclr\<close>, \<open>blsh\<close>, \<open>bnum\<close>), which are not under src/; the spec has
  each liveness set be a bitset over dense variable indices. A word index past the end
  of the vector reads as 0 and writes nothing.
\<close>

definition bany :: "Bits \<Rightarrow> bool" where
  "bany a = list_ex (\<lambda>w. w \<noteq> 0) a"

definition btest :: "Bits \<Rightarrow> nat \<Rightarrow> bool" where
  "btest a n = (n div 64 < length a \<and> a ! (n div 64) AND push_bit (n mod 64) 1 \<noteq> 0)"

definition biset :: "Bits \<Rightarrow> nat \<Rightarrow> Bits" where
  "biset a n = (if n div 64 < length a
                then a[n div 64 := a ! (n div 64) OR push_bit (n mod 64) 1] else a)"

definition biclr :: "Bits \<Rightarrow> nat \<Rightarrow> Bits" where
  "biclr a n = (if n div 64 < length a
                then a[n div 64 := a ! (n div 64) AND NOT (push_bit (n mod 64) 1)] else a)"

definition blsh :: "target \<Rightarrow> nat \<Rightarrow> Bits" where
  "blsh tg n = biset (zbits tg) n"

fun bnum_from :: "nat \<Rightarrow> nat \<Rightarrow> Bits \<Rightarrow> nat option" where
  "bnum_from 0 n a = None"
| "bnum_from (Suc k) n a = (if btest a n then Some n else bnum_from k (Suc n) a)"

definition bnum :: "Bits \<Rightarrow> nat option" where
  "bnum a = bnum_from (64 * length a) 0 a"

text \<open>
  reg.c combines bit vectors word by word, in loops
  \<^verbatim>\<open>for(z=0; z<BITS; z++) c.b[z] = a.b[z] | b.b[z];\<close>. \<open>bor\<close>, \<open>band\<close> and
  \<open>bandnot\<close> (\<^verbatim>\<open>a.b[z] & ~b.b[z]\<close>) are these loops.
\<close>

definition bor :: "target \<Rightarrow> Bits \<Rightarrow> Bits \<Rightarrow> Bits" where
  "bor tg a b = map (\<lambda>z. a ! z OR b ! z) [0..<BITS tg]"

definition band :: "target \<Rightarrow> Bits \<Rightarrow> Bits \<Rightarrow> Bits" where
  "band tg a b = map (\<lambda>z. a ! z AND b ! z) [0..<BITS tg]"

definition bandnot :: "target \<Rightarrow> Bits \<Rightarrow> Bits \<Rightarrow> Bits" where
  "bandnot tg a b = map (\<lambda>z. a ! z AND NOT (b ! z)) [0..<BITS tg]"

section \<open>Regions and the region comparator (cmd/6g/opt.h, cmd/6g/reg.c)\<close>

text \<open>
  \<^verbatim>\<open>struct Rgn { Reg* enter; short cost; short varno; short regno; }\<close>.
  The flow node \<open>enter\<close> is the index of the node in the flow graph; the three
  \<open>short\<close> fields are 16-bit words read as two's complement.
\<close>

record Rgn =
  enter :: nat
  cost :: "16 word"
  varno :: "16 word"
  regno :: "16 word"

text \<open>
  \<open>rcmp\<close>, the comparator handed to \<open>qsort\<close>. The shorts are promoted to
  \<open>int\<close> before the subtraction, so neither difference can overflow.
\<close>

definition rcmp :: "Rgn \<Rightarrow> Rgn \<Rightarrow> int" where
  "rcmp p1 p2 =
     (let c1 = sint (cost p2);
          c2 = sint (cost p1);
          c1 = c1 - c2
      in if c1 \<noteq> 0 then c1 else sint (varno p2) - sint (varno p1))"


section \<open>The register allocator's data (cmd/6g/opt.h, gc/go.h)\<close>

text \<open>
  \<^verbatim>\<open>struct Var\<close>: one tracked (storage node, offset, type, width) tuple. \<open>node\<close>
  is the storage node, \<open>offset\<close> is an int64 and \<open>width\<close> an int, \<open>addr\<close> is
  non-zero once the address has escaped. The chain
  \<open>nextinnode\<close> through the Vars of one node is kept in the node (\<open>opt\<close> below).
\<close>

record Var =
  offset :: "64 word"
  node :: nat
  width :: "32 word"
  name :: aname
  etype :: etype
  addr :: nat

text \<open>
  The storage classes of a declaration (\<open>Node.class\<close>) that reg.c tests, and the
  fields of \<^verbatim>\<open>struct Node\<close> it reads. \<open>opt\<close> is the list of the node's Vars that
  starts at \<^verbatim>\<open>node->opt\<close> and follows \<^verbatim>\<open>nextinnode\<close>: most recently created first,
  empty for the null pointer.
\<close>

datatype nclass = PEXTERN | PAUTO | PPARAM | PPARAMOUT | PFUNC

record Node =
  is_ONAME :: bool
  orig :: "nat option"
  symname :: "string option"
  class' :: nclass
  addrtaken :: bool
  opt :: "nat list"

text \<open>
  \<^verbatim>\<open>struct Flow\<close> (one instruction and its edges) and \<^verbatim>\<open>struct Reg\<close>, the Flow
  together with the allocator's sets. Every pointer to a flow node is the position of
  the node in the graph, a list that holds the nodes in the order of \<^verbatim>\<open>link\<close>;
  \<open>prog\<close> is the position of the instruction in the chain. The field \<^verbatim>\<open>set\<close> is
  \<open>rset\<close> here.
\<close>

record Flow =
  prog :: nat
  p1 :: "nat option"
  p2 :: "nat option"
  p2link :: "nat option"
  s1 :: "nat option"
  s2 :: "nat option"
  active :: "32 word"
  loop :: int
  refset :: bool

record Reg = Flow +
  rset :: Bits
  use1 :: Bits
  use2 :: Bits
  refbehind :: Bits
  refahead :: Bits
  calbehind :: Bits
  calahead :: Bits
  regdiff :: Bits
  act :: Bits
  regu :: "32 word"

text \<open>
  The allocator's global variables (opt.h, go.h, link.h). The table \<^verbatim>\<open>var[NVAR]\<close>
  with its count \<open>nvar\<close> is the list \<open>var\<close>: \<open>nvar\<close> is its length (\<^verbatim>\<open>consts\<close> is \<open>consts_b\<close>). \<open>nodes\<close>
  is the memory that holds the storage nodes, read through a \<^verbatim>\<open>Node*\<close>. \<open>debug_w\<close> is
  \<^verbatim>\<open>debug['w']\<close>.
\<close>

record regstate =
  var :: "Var list"
  nodes :: "nat \<Rightarrow> Node"
  externs :: Bits
  params :: Bits
  consts_b :: Bits
  addrs :: Bits
  ivar :: Bits
  ovar :: Bits
  regbits :: "32 word"
  change :: int
  debug_w :: nat
  hasdefer :: bool
  nacl :: bool
  framepointer_enabled :: bool
  ostats_nvar :: nat
  ostats_naddr :: nat

definition nvar :: "regstate \<Rightarrow> nat" where
  "nvar st = length (var st)"

text \<open>
  A call of \<open>fatal\<close> aborts the compilation; a pointer outside its table is a crash;
  \<open>OutOfFuel\<close> is the result of a loop of the model that did not end within its
  bound of steps. \<open>ebind\<close> passes a result on and stops at an error.
\<close>

datatype error = Fatal string | BadPointer | OutOfFuel

definition ebind :: "error + 'a \<Rightarrow> ('a \<Rightarrow> error + 'b) \<Rightarrow> error + 'b" where
  "ebind m f = (case m of Inl e \<Rightarrow> Inl e | Inr x \<Rightarrow> f x)"

section \<open>Registers and register bitmaps (cmd/6g/reg.c)\<close>

text \<open>
  \<^verbatim>\<open>1L << k\<close> stored in a uint32: \<open>push_bit k 1\<close> on a 32-bit word, which is 0 from
  \<open>k = 32\<close> on.
\<close>

definition RtoB :: "target \<Rightarrow> int \<Rightarrow> 32 word" where
  "RtoB tg r = (if r < REG_AX tg \<or> r > REG_R15 tg then 0
                else push_bit (nat (r - REG_AX tg)) 1)"

definition BtoR :: "target \<Rightarrow> regstate \<Rightarrow> 32 word \<Rightarrow> int" where
  "BtoR tg st b0 =
     (let b = b0 AND 0xffff;
          b = (if nacl st
               then b AND NOT (push_bit (nat (REG_BP tg - REG_AX tg)) 1
                               OR push_bit (nat (REG_R15 tg - REG_AX tg)) 1)
               else if framepointer_enabled st
               then b AND NOT (push_bit (nat (REG_BP tg - REG_AX tg)) 1)
               else b)
      in if b = 0 then 0 else bitno tg b + REG_AX tg)"

definition FtoB :: "target \<Rightarrow> int \<Rightarrow> 32 word" where
  "FtoB tg f = (if f < REG_X0 tg \<or> f > REG_X15 tg then 0
                else push_bit (nat (f - REG_X0 tg + 16)) 1)"

definition BtoF :: "target \<Rightarrow> 32 word \<Rightarrow> int" where
  "BtoF tg b0 =
     (let b = b0 AND 0xFFFF0000
      in if b = 0 then 0 else bitno tg b - 16 + REG_X0 tg)"

definition doregbits :: "target \<Rightarrow> int \<Rightarrow> 32 word" where
  "doregbits tg r =
     (if r \<ge> REG_AX tg \<and> r \<le> REG_R15 tg then RtoB tg r
      else if r \<ge> REG_AL tg \<and> r \<le> REG_R15B tg then RtoB tg (r - REG_AL tg + REG_AX tg)
      else if r \<ge> REG_AH tg \<and> r \<le> REG_BH tg then RtoB tg (r - REG_AH tg + REG_AX tg)
      else if r \<ge> REG_X0 tg \<and> r \<le> REG_X0 tg + 15 then FtoB tg r
      else 0)"

text \<open>
  \<open>allreg\<close>: choose a register for region \<open>r\<close>, given the bitmap \<open>b\<close> of the
  registers in use over the region. The result is the bitmap of the chosen register
  and the region with \<open>regno\<close> set (0: none). \<^verbatim>\<open>r->regno = i\<close> stores an int in a
  short.
\<close>

definition allreg :: "target \<Rightarrow> regstate \<Rightarrow> 32 word \<Rightarrow> Rgn \<Rightarrow> error + (32 word \<times> Rgn)" where
  "allreg tg st b r =
     (if sint (varno r) < 0 \<or> nat (sint (varno r)) \<ge> length (var st) then Inl BadPointer
      else
        let v = var st ! nat (sint (varno r));
            r = r\<lparr>regno := 0\<rparr>
        in if etype v \<in> {TINT8, TUINT8, TINT16, TUINT16, TINT32, TUINT32, TINT64, TUINT64,
                          TINT, TUINT, TUINTPTR, TBOOL, TPTR32, TPTR64}
           then (let i = BtoR tg st (NOT b)
                 in if i \<noteq> 0 \<and> sint (cost r) > 0
                    then Inr (RtoB tg i, r\<lparr>regno := word_of_int i\<rparr>)
                    else Inr (0, r))
           else if etype v \<in> {TFLOAT32, TFLOAT64}
           then (let i = BtoF tg (NOT b)
                 in if i \<noteq> 0 \<and> sint (cost r) > 0
                    then Inr (FtoB tg i, r\<lparr>regno := word_of_int i\<rparr>)
                    else Inr (0, r))
           else Inl (Fatal ''unknown etype''))"

section \<open>Flood fill of a region: the registers in use (paint2)\<close>

text \<open>
  The recursion of \<open>paint2\<close> follows the edges of the flow graph, so the model counts
  its steps down from a bound: \<open>None\<close> is "no result within the bound" (or an edge
  that points outside the graph). \<open>paint2_back\<close> is the first \<^verbatim>\<open>for(;;)\<close> loop (walk
  back to the start of the region), \<open>paint2_fwd\<close> the second, \<open>paint2_p2\<close> the loop
  over the \<open>p2\<close> predecessors. \<open>vreg\<close> is a uint64 that starts from the int32
  \<open>regbits\<close>, takes the int32 \<open>regu\<close> of every node and the uint32 results of the
  recursive calls, and is returned as a uint32.
\<close>

fun paint2_back :: "nat \<Rightarrow> Reg list \<Rightarrow> nat \<Rightarrow> nat \<Rightarrow> nat option" where
  "paint2_back 0 g r bn = None"
| "paint2_back (Suc k) g r bn =
     (if \<not> btest (refbehind (g ! r)) bn then Some r
      else case p1 (g ! r) of
             None \<Rightarrow> Some r
           | Some r1 \<Rightarrow>
               if r1 \<ge> length g then None
               else if \<not> btest (refahead (g ! r1)) bn then Some r
               else if \<not> btest (act (g ! r1)) bn then Some r
               else paint2_back k g r1 bn)"

function (sequential) paint2 :: "nat \<Rightarrow> 32 word \<Rightarrow> Reg list \<Rightarrow> nat \<Rightarrow> nat \<Rightarrow> (32 word \<times> Reg list) option"
and paint2_fwd :: "nat \<Rightarrow> 32 word \<Rightarrow> Reg list \<Rightarrow> nat \<Rightarrow> nat \<Rightarrow> 64 word
                    \<Rightarrow> (64 word \<times> Reg list) option"
and paint2_p2 :: "nat \<Rightarrow> 32 word \<Rightarrow> Reg list \<Rightarrow> nat option \<Rightarrow> nat \<Rightarrow> 64 word
                    \<Rightarrow> (64 word \<times> Reg list) option"
where
  "paint2 0 rb g r bn = None"
| "paint2 (Suc k) rb g r bn =
     (if r \<ge> length g then None
      else if \<not> btest (act (g ! r)) bn then Some (ucast (scast rb :: 64 word), g)
      else case paint2_back k g r bn of
             None \<Rightarrow> None
           | Some r0 \<Rightarrow>
               (case paint2_fwd k rb g r0 bn (scast rb) of
                  None \<Rightarrow> None
                | Some (vreg, g') \<Rightarrow> Some (ucast vreg, g')))"
| "paint2_fwd 0 rb g r bn vreg = None"
| "paint2_fwd (Suc k) rb g r bn vreg =
     (let g1 = g[r := (g ! r)\<lparr>act := biclr (act (g ! r)) bn\<rparr>];
          vreg1 = vreg OR scast (regu (g1 ! r))
      in case (if btest (refbehind (g1 ! r)) bn
               then paint2_p2 k rb g1 (p2 (g1 ! r)) bn vreg1
               else Some (vreg1, g1)) of
           None \<Rightarrow> None
         | Some (vreg2, g2) \<Rightarrow>
             if \<not> btest (refahead (g2 ! r)) bn then Some (vreg2, g2)
             else
               (case (case s2 (g2 ! r) of
                        None \<Rightarrow> Some (vreg2, g2)
                      | Some r1 \<Rightarrow>
                          if r1 \<ge> length g2 then None
                          else if btest (refbehind (g2 ! r1)) bn
                          then (case paint2 k rb g2 r1 bn of
                                  None \<Rightarrow> None
                                | Some (v, g3) \<Rightarrow> Some (vreg2 OR ucast v, g3))
                          else Some (vreg2, g2)) of
                  None \<Rightarrow> None
                | Some (vreg3, g3) \<Rightarrow>
                    (case s1 (g3 ! r) of
                       None \<Rightarrow> Some (vreg3, g3)
                     | Some rn \<Rightarrow>
                         if rn \<ge> length g3 then None
                         else if \<not> btest (act (g3 ! rn)) bn then Some (vreg3, g3)
                         else if \<not> btest (refbehind (g3 ! rn)) bn then Some (vreg3, g3)
                         else paint2_fwd k rb g3 rn bn vreg3)))"
| "paint2_p2 0 rb g ro bn vreg = None"
| "paint2_p2 (Suc k) rb g ro bn vreg =
     (case ro of
        None \<Rightarrow> Some (vreg, g)
      | Some r1 \<Rightarrow>
          if r1 \<ge> length g then None
          else
            (case (if btest (refahead (g ! r1)) bn
                   then (case paint2 k rb g r1 bn of
                           None \<Rightarrow> None
                         | Some (v, g') \<Rightarrow> Some (vreg OR ucast v, g'))
                   else Some (vreg, g)) of
               None \<Rightarrow> None
             | Some (vreg', g') \<Rightarrow> paint2_p2 k rb g' (p2link (g' ! r1)) bn vreg'))"
  by pat_completeness auto
termination
  by (relation "measure (\<lambda>x. case x of Inl (k, _) \<Rightarrow> k | Inr (Inl (k, _)) \<Rightarrow> k
                                   | Inr (Inr (k, _)) \<Rightarrow> k)") auto

text \<open>
  Pass 6 of \<open>regopt\<close> for one region (reg.c, lines 397 to 399):
  \<^verbatim>\<open>vreg = paint2(rgp->enter, rgp->varno, 0); vreg = allreg(vreg, rgp);\<close>
\<close>

definition regopt_pass6_region ::
  "nat \<Rightarrow> target \<Rightarrow> regstate \<Rightarrow> Reg list \<Rightarrow> Rgn \<Rightarrow> (error + (32 word \<times> Rgn \<times> Reg list)) option"
where
  "regopt_pass6_region k tg st g rgn =
     (if sint (varno rgn) < 0 then Some (Inl BadPointer)
      else case paint2 k (regbits st) g (enter rgn) (nat (sint (varno rgn))) of
             None \<Rightarrow> None
           | Some (vreg, g') \<Rightarrow>
               (case allreg tg st vreg rgn of
                  Inl e \<Rightarrow> Some (Inl e)
                | Inr (vreg', rgn') \<Rightarrow> Some (Inr (vreg', rgn', g'))))"


section \<open>The variable table (mkvar, setaddrs, overlap)\<close>

definition NREGVAR :: nat where
  "NREGVAR = 32"

text \<open>
  \<open>overlap\<close>: do the byte ranges [o1, o1+w1) and [o2, o2+w2) intersect. The offsets
  are int64 and the widths int; the sums are int64 additions (the int is sign
  extended, and the sum wraps around where C leaves the overflow undefined) and the
  comparisons are signed.
\<close>

definition overlap :: "64 word \<Rightarrow> 32 word \<Rightarrow> 64 word \<Rightarrow> 32 word \<Rightarrow> bool" where
  "overlap o1 w1 o2 w2 =
     (let t1 = o1 + scast w1; t2 = o2 + scast w2
      in if \<not> (o2 <s t1 \<and> o1 <s t2) then False else True)"

text \<open>
  \<open>setaddrs\<close>: for every bit of \<open>bits\<close>, lowest first
  (\<^verbatim>\<open>while(bany(&bit)) { i = bnum(bit); ... biclr(&bit, i); ... }\<close>), set \<open>addr = 2\<close> in
  every Var of the same node and storage class as Var \<open>i\<close>.
\<close>

fun setaddrs_bits :: "nat list \<Rightarrow> Var list \<Rightarrow> error + Var list" where
  "setaddrs_bits [] vs = Inr vs"
| "setaddrs_bits (i # is) vs =
     (if i \<ge> length vs then Inl BadPointer
      else setaddrs_bits is
             (map (\<lambda>v. if node v = node (vs ! i) \<and> name v = name (vs ! i)
                        then v\<lparr>addr := 2\<rparr> else v) vs))"

definition setaddrs :: "Bits \<Rightarrow> Var list \<Rightarrow> error + Var list" where
  "setaddrs bits vs = setaddrs_bits (filter (btest bits) [0..<64 * length bits]) vs"

text \<open>
  The search loop of \<open>mkvar\<close> (reg.c, lines 680 to 695) over \<open>var[i]\<close>, \<open>i < nvar\<close>:
  the result is the index of the Var identical to the operand, if the loop returned
  one, the table (an overlapping Var has \<open>addr = 1\<close>) and \<open>flag\<close>. The width \<open>w\<close>
  of the operand is an int64: \<^verbatim>\<open>v->width == w\<close> compares it with the sign-extended
  int of the Var, and the call of \<open>overlap\<close> converts it to int.
\<close>

fun mkvar_scan ::
  "nat \<Rightarrow> nat \<Rightarrow> nat \<Rightarrow> aname \<Rightarrow> 64 word \<Rightarrow> etype \<Rightarrow> 64 word \<Rightarrow> Var list \<Rightarrow> bool
     \<Rightarrow> nat option \<times> Var list \<times> bool"
where
  "mkvar_scan 0 i nd n o' et w vs flag = (None, vs, flag)"
| "mkvar_scan (Suc k) i nd n o' et w vs flag =
     (let v = vs ! i
      in if node v = nd \<and> name v = n
         then (if offset v = o' \<and> etype v = et \<and> scast (width v) = w then (Some i, vs, flag)
               else if overlap (offset v) (width v) o' (ucast w)
               then mkvar_scan k (Suc i) nd n o' et w (vs[i := v\<lparr>addr := 1\<rparr>]) True
               else mkvar_scan k (Suc i) nd n o' et w vs flag)
         else mkvar_scan k (Suc i) nd n o' et w vs flag)"

text \<open>
  The storage node of a memory operand (reg.c, lines 665 to 672): \<open>None\<close> for
  \<^verbatim>\<open>goto none\<close>, when the operand has no node, the node is not a name, or the name
  starts with a dot.
\<close>

definition mkvar_node :: "regstate \<Rightarrow> Addr \<Rightarrow> error + nat option" where
  "mkvar_node st a =
     (case Addr.node a of
        None \<Rightarrow> Inr None
      | Some nd0 \<Rightarrow>
          if \<not> is_ONAME (nodes st nd0) \<or> orig (nodes st nd0) = None then Inr None
          else
            let nd = the (orig (nodes st nd0)) in
            if orig (nodes st nd) \<noteq> Some nd then Inl (Fatal ''bad node'')
            else if symname (nodes st nd) = None \<or> take 1 (the (symname (nodes st nd))) = ''.''
            then Inr None
            else Inr (Some nd))"

text \<open>
  The table is full (reg.c, lines 710 to 714): every Var of the node \<open>nd\<close> gets
  \<open>addr = 1\<close>.
\<close>

definition mkvar_cap :: "regstate \<Rightarrow> nat \<Rightarrow> regstate" where
  "mkvar_cap st nd = st\<lparr>var := map (\<lambda>v. if node v = nd then v\<lparr>addr := 1\<rparr> else v) (var st)\<rparr>"

text \<open>
  A new Var (reg.c, lines 718 to 783) for the node \<open>nd\<close>, with storage class \<open>n\<close>,
  offset \<open>o'\<close>, type \<open>et\<close> and width \<open>w\<close>; \<open>flag\<close> says that the search loop found
  an overlapping Var. The result is the bit of the Var and the new state.
  \<^verbatim>\<open>v->width = w\<close> stores the int64 in an int.
\<close>

definition mkvar_new ::
  "target \<Rightarrow> regstate \<Rightarrow> nat \<Rightarrow> aname \<Rightarrow> 64 word \<Rightarrow> etype \<Rightarrow> 64 word \<Rightarrow> bool
     \<Rightarrow> Bits \<times> regstate"
where
  "mkvar_new tg st nd n o' et w flag =
     (let i = nvar st;
          v = \<lparr>offset = o', node = nd, width = ucast w, name = n, etype = et,
               addr = (if flag then 1 else 0)\<rparr>;
          ndv = (nodes st nd)\<lparr>opt := i # opt (nodes st nd)\<rparr>;
          bits = blsh tg i;
          st = st\<lparr>nodes := (nodes st)(nd := ndv)\<rparr>;
          st = (if n = NAME_EXTERN \<or> n = NAME_STATIC
                then st\<lparr>externs := bor tg (externs st) bits\<rparr> else st);
          st = (if n = NAME_PARAM then st\<lparr>params := bor tg (params st) bits\<rparr> else st);
          st = (if class' ndv = PPARAM then st\<lparr>ivar := bor tg (ivar st) bits\<rparr> else st);
          st = (if class' ndv = PPARAMOUT then st\<lparr>ovar := bor tg (ovar st) bits\<rparr> else st);
          v = (if addrtaken ndv then v\<lparr>addr := 1\<rparr> else v);
          v = (if class' ndv = PEXTERN \<or> (hasdefer st \<and> class' ndv = PPARAMOUT)
               then v\<lparr>addr := 1\<rparr> else v)
      in (bits, st\<lparr>var := var st @ [v], ostats_nvar := ostats_nvar st + 1\<rparr>))"

text \<open>
  \<open>mkvar\<close> from the label \<^verbatim>\<open>case TYPE_MEM\<close> on: the operand names memory. The
  result is the bit of the operand's Var (or the empty vector, \<^verbatim>\<open>goto none\<close>)
  and the new state.
\<close>

definition mkvar_mem :: "target \<Rightarrow> regstate \<Rightarrow> Addr \<Rightarrow> error + (Bits \<times> regstate)" where
  "mkvar_mem tg st a =
     (if Addr.name a \<notin> {NAME_EXTERN, NAME_STATIC, NAME_PARAM, NAME_AUTO}
      then Inr (zbits tg, st)
      else
        ebind (mkvar_node st a) (\<lambda>ndo.
          case ndo of
            None \<Rightarrow> Inr (zbits tg, st)
          | Some nd \<Rightarrow>
              if Addr.width a <s 0 then Inl (Fatal ''bad width'')
              else
                case mkvar_scan (nvar st) 0 nd (Addr.name a) (Addr.offset a) (Addr.etype a)
                       (Addr.width a) (var st) False of
                  (Some i, vs, flag) \<Rightarrow> Inr (blsh tg i, st\<lparr>var := vs\<rparr>)
                | (None, vs, flag) \<Rightarrow>
                    if Addr.etype a = Txxx \<or> Addr.etype a = TFUNC
                    then Inr (zbits tg, st\<lparr>var := vs\<rparr>)
                    else if nvar st \<ge> NVAR tg
                    then (if debug_w st > 1 then Inl (Fatal ''variable not optimized'')
                          else Inr (zbits tg, mkvar_cap (st\<lparr>var := vs\<rparr>) nd))
                    else Inr (mkvar_new tg (st\<lparr>var := vs\<rparr>) nd (Addr.name a) (Addr.offset a)
                                (Addr.etype a) (Addr.width a) flag)))"

text \<open>
  \<open>mkvar\<close>. \<open>r\<close> is the flow node of the instruction (\<open>None\<close> for \<^verbatim>\<open>R\<close>), whose
  \<open>use1\<close> receives the index register of the operand. For \<^verbatim>\<open>TYPE_ADDR\<close> the source
  retypes the operand as \<^verbatim>\<open>TYPE_MEM\<close>, calls itself, and restores the type: the inner
  call repeats the update of \<open>use1\<close> with the same bits and continues at
  \<^verbatim>\<open>case TYPE_MEM\<close>, which is \<open>mkvar_mem\<close>.
\<close>

definition mkvar ::
  "target \<Rightarrow> regstate \<Rightarrow> Reg option \<Rightarrow> Addr \<Rightarrow> error + (Bits \<times> regstate \<times> Reg option)"
where
  "mkvar tg st r a =
     (if type a = TYPE_NONE then Inr (zbits tg, st, r)
      else
        let r = map_option
                  (\<lambda>r. r\<lparr>use1 := (use1 r)[0 := use1 r ! 0 OR ucast (doregbits tg (index a))]\<rparr>) r
        in if type a = TYPE_ADDR
           then (case mkvar_mem tg st a of
                   Inl e \<Rightarrow> Inl e
                 | Inr (bits, st) \<Rightarrow>
                     (case setaddrs bits (var st) of
                        Inl e \<Rightarrow> Inl e
                      | Inr vs \<Rightarrow>
                          Inr (zbits tg,
                               st\<lparr>var := vs, ostats_naddr := ostats_naddr st + 1\<rparr>, r)))
           else if type a = TYPE_MEM
           then (case mkvar_mem tg st a of
                   Inl e \<Rightarrow> Inl e
                 | Inr (bits, st) \<Rightarrow> Inr (bits, st, r))
           else
             let regu = doregbits tg (reg a)
             in if regu = 0 then Inr (zbits tg, st, r)
                else Inr ((zbits tg)[0 := ucast regu], st, r))"

text \<open>
  The start of \<open>regopt\<close> (reg.c, lines 148 to 164): the table holds the \<open>NREGVAR\<close>
  pseudo-variables of the registers, whose nodes are \<open>regnodes\<close>; \<open>regbits\<close> is the
  bit of the stack pointer; the global sets are empty.
\<close>

definition regopt_init :: "target \<Rightarrow> nat list \<Rightarrow> regstate \<Rightarrow> regstate" where
  "regopt_init tg regnodes st =
     st\<lparr>var := map (\<lambda>i. \<lparr>offset = 0, node = regnodes ! i, width = 0, name = NAME_NONE,
                          etype = Txxx, addr = 0\<rparr>) [0..<NREGVAR],
        regbits := RtoB tg (REG_SP tg),
        externs := zbits tg, params := zbits tg, consts_b := zbits tg,
        addrs := zbits tg, ivar := zbits tg, ovar := zbits tg\<rparr>"

text \<open>
  Pass 1 of \<open>regopt\<close> for one instruction (reg.c, lines 182 to 216): the use and set
  vectors of the node from the operands. The first component of the result is the
  instruction's flow node.
\<close>

definition regopt_pass1_node ::
  "target \<Rightarrow> regstate \<Rightarrow> Reg \<Rightarrow> Prog \<Rightarrow> error + (Reg \<times> regstate)"
where
  "regopt_pass1_node tg st r p =
     (if as p = AVARDEF \<or> as p = AVARKILL then Inr (r, st)
      else
        let info = proginfo tg p in
        if as p = ACALL \<and> type (to p) = TYPE_MEM \<and> Addr.name (to p) = NAME_EXTERN
        then Inr (r, st)
        else
          let r = r\<lparr>use1 := (use1 r)[0 := use1 r ! 0 OR ucast (reguse info OR regindex info)],
                    rset := (rset r)[0 := rset r ! 0 OR ucast (regset info)]\<rparr>
          in case mkvar tg st (Some r) (from p) of
               Inl e \<Rightarrow> Inl e
             | Inr (bits, st, ro) \<Rightarrow>
                 (case (if bany bits \<and> LeftAddr \<in> set (flags info)
                        then setaddrs bits (var st) else Inr (var st)) of
                    Inl e \<Rightarrow> Inl e
                  | Inr vs \<Rightarrow>
                      let st = st\<lparr>var := vs\<rparr>;
                          r = the ro;
                          r = (if bany bits \<and> LeftRead \<in> set (flags info)
                               then r\<lparr>use1 := bor tg (use1 r) bits\<rparr> else r);
                          r = (if bany bits \<and> LeftWrite \<in> set (flags info)
                               then r\<lparr>rset := bor tg (rset r) bits\<rparr> else r)
                      in case mkvar tg st (Some r) (to p) of
                           Inl e \<Rightarrow> Inl e
                         | Inr (bits, st, ro) \<Rightarrow>
                             (case (if bany bits \<and> RightAddr \<in> set (flags info)
                                    then setaddrs bits (var st) else Inr (var st)) of
                                Inl e \<Rightarrow> Inl e
                              | Inr vs \<Rightarrow>
                                  let st = st\<lparr>var := vs\<rparr>;
                                      r = the ro;
                                      r = (if bany bits \<and> RightRead \<in> set (flags info)
                                           then r\<lparr>use2 := bor tg (use2 r) bits\<rparr> else r);
                                      r = (if bany bits \<and> RightWrite \<in> set (flags info)
                                           then r\<lparr>rset := bor tg (rset r) bits\<rparr> else r)
                                  in Inr (r, st))))"

text \<open>
  The end of pass 1 (reg.c, lines 219 to 225): \<open>addrs\<close> receives the bit of every Var
  whose \<open>addr\<close> is not 0.
\<close>

definition regopt_addrs :: "target \<Rightarrow> regstate \<Rightarrow> regstate" where
  "regopt_addrs tg st =
     st\<lparr>addrs := foldl (\<lambda>ad i. if addr (var st ! i) \<noteq> 0 then bor tg ad (blsh tg i) else ad)
                       (addrs st) [0..<nvar st]\<rparr>"

section \<open>Backward liveness propagation (prop)\<close>

text \<open>
  The widening of the across-call set at a call (reg.c, lines 838 to 867), for the bit
  \<open>i\<close> of word \<open>z\<close>: if Var \<open>z*64+i\<close> is in \<open>cal\<close> and its node has a chain of Vars,
  and the Var is the head of the chain or the head is not yet in \<open>cal\<close>, every Var of
  the chain is put into \<open>cal\<close>.
\<close>

definition prop_expand_bit :: "regstate \<Rightarrow> nat \<Rightarrow> nat \<Rightarrow> Bits \<Rightarrow> Bits" where
  "prop_expand_bit st z i cal =
     (if z * 64 + i \<ge> nvar st \<or> drop_bit i (cal ! z) AND 1 = 0 then cal
      else
        let v = var st ! (z * 64 + i);
            chain = opt (nodes st (node v))
        in if chain = [] then cal
           else if z * 64 + i = hd chain \<or> \<not> btest cal (hd chain)
           then foldl biset cal chain
           else cal)"

definition prop_expand :: "target \<Rightarrow> regstate \<Rightarrow> Bits \<Rightarrow> Bits" where
  "prop_expand tg st cal =
     foldl (\<lambda>cal z. if cal ! z = 0 then cal
                     else foldl (\<lambda>cal i. prop_expand_bit st z i cal) cal [0..<64])
           cal [0..<BITS tg]"

text \<open>
  The \<^verbatim>\<open>switch\<close> on the opcode in the loop of \<open>prop\<close> (reg.c, lines 809 to 883):
  what a call that returns, \<^verbatim>\<open>TEXT\<close> and \<^verbatim>\<open>RET\<close> do to the sets \<open>ref\<close> and
  \<open>cal\<close> that reach the node; \<open>r1act\<close> is \<^verbatim>\<open>r1->act\<close>.
\<close>

definition prop_switch ::
  "target \<Rightarrow> regstate \<Rightarrow> Prog \<Rightarrow> Bits \<Rightarrow> Bits \<Rightarrow> Bits \<Rightarrow> Bits \<times> Bits"
where
  "prop_switch tg st p r1act ref cal =
     (if as p = ACALL
      then (if noreturn tg p then (ref, cal)
            else (zbits tg,
                  prop_expand tg st
                    (bor tg cal (bor tg (bor tg (bor tg ref (externs st)) (ivar st)) r1act))))
      else if as p = ATEXT then (zbits tg, zbits tg)
      else if as p = ARET then (zbits tg, bor tg (externs st) (ovar st))
      else (ref, cal))"

text \<open>
  The body of the first loop of \<open>prop\<close> for the node \<open>r1\<close> with instruction \<open>p\<close>
  (reg.c, lines 797 to 890): the sets that arrive are merged into \<open>refahead\<close> and
  \<open>calahead\<close>, the switch is applied, and the transfer through the instruction gives
  \<open>refbehind\<close> and \<open>calbehind\<close>. The result is the node, the sets \<open>ref\<close> and
  \<open>cal\<close> handed to the predecessor, and the number of words of \<open>refahead\<close> and
  \<open>calahead\<close> that changed (the increments of \<open>change\<close>).
\<close>

definition prop_node ::
  "target \<Rightarrow> regstate \<Rightarrow> Prog \<Rightarrow> Reg \<Rightarrow> Bits \<Rightarrow> Bits \<Rightarrow> Reg \<times> Bits \<times> Bits \<times> int"
where
  "prop_node tg st p r1 ref0 cal0 =
     (let ref = bor tg ref0 (refahead r1);
          n1 = length (filter (\<lambda>z. ref ! z \<noteq> refahead r1 ! z) [0..<BITS tg]);
          cal = bor tg cal0 (calahead r1);
          n2 = length (filter (\<lambda>z. cal ! z \<noteq> calahead r1 ! z) [0..<BITS tg]);
          r1 = r1\<lparr>refahead := ref, calahead := cal\<rparr>;
          (ref, cal) = prop_switch tg st p (act r1) ref cal;
          ref = bor tg (bor tg (bandnot tg ref (rset r1)) (use1 r1)) (use2 r1);
          cal = bandnot tg cal (bor tg (bor tg (rset r1) (use1 r1)) (use2 r1));
          r1 = r1\<lparr>refbehind := ref, calbehind := cal\<rparr>
      in (r1, ref, cal, int (n1 + n2)))"

text \<open>
  \<open>prop\<close> walks the graph, so its model counts steps down from a bound (\<open>None\<close>: no
  result within the bound, or an edge out of the graph). \<open>prop_walk\<close> is the first
  loop, up the \<open>p1\<close> edges until a node that was already active; \<open>prop_back\<close> is the
  second loop, which calls \<open>prop\<close> on the \<open>p2\<close> predecessors (\<open>prop_p2\<close>) of every
  node of the walk. The function \<open>prop\<close> itself is \<open>prop'\<close> here.
\<close>

fun prop_walk ::
  "nat \<Rightarrow> target \<Rightarrow> regstate \<Rightarrow> Prog list \<Rightarrow> Reg list \<Rightarrow> nat option \<Rightarrow> Bits \<Rightarrow> Bits
     \<Rightarrow> (regstate \<times> Reg list \<times> nat option) option"
where
  "prop_walk 0 tg st ch g r ref cal = None"
| "prop_walk (Suc k) tg st ch g None ref cal = Some (st, g, None)"
| "prop_walk (Suc k) tg st ch g (Some i) ref cal =
     (if i \<ge> length g \<or> prog (g ! i) \<ge> length ch then None
      else
        case prop_node tg st (ch ! prog (g ! i)) (g ! i) ref cal of
          (r1, ref, cal, n) \<Rightarrow>
            let st = st\<lparr>change := change st + n\<rparr>
            in if active r1 \<noteq> 0 then Some (st, g[i := r1], Some i)
               else prop_walk k tg st ch (g[i := r1\<lparr>active := 1\<rparr>]) (p1 r1) ref cal)"

function (sequential) prop' ::
  "nat \<Rightarrow> target \<Rightarrow> regstate \<Rightarrow> Prog list \<Rightarrow> Reg list \<Rightarrow> nat option \<Rightarrow> Bits \<Rightarrow> Bits
     \<Rightarrow> (regstate \<times> Reg list) option"
and prop_back ::
  "nat \<Rightarrow> target \<Rightarrow> regstate \<Rightarrow> Prog list \<Rightarrow> Reg list \<Rightarrow> nat option \<Rightarrow> nat option
     \<Rightarrow> (regstate \<times> Reg list) option"
and prop_p2 ::
  "nat \<Rightarrow> target \<Rightarrow> regstate \<Rightarrow> Prog list \<Rightarrow> Reg list \<Rightarrow> nat option \<Rightarrow> nat
     \<Rightarrow> (regstate \<times> Reg list) option"
where
  "prop' 0 tg st ch g r ref cal = None"
| "prop' (Suc k) tg st ch g r ref cal =
     (case prop_walk k tg st ch g r ref cal of
        None \<Rightarrow> None
      | Some (st, g, r1) \<Rightarrow> prop_back k tg st ch g r r1)"
| "prop_back 0 tg st ch g r r1 = None"
| "prop_back (Suc k) tg st ch g r r1 =
     (if r = r1 then Some (st, g)
      else case r of
             None \<Rightarrow> None
           | Some i \<Rightarrow>
               (case prop_p2 k tg st ch g (p2 (g ! i)) i of
                  None \<Rightarrow> None
                | Some (st, g) \<Rightarrow> prop_back k tg st ch g (p1 (g ! i)) r1))"
| "prop_p2 0 tg st ch g r2 i = None"
| "prop_p2 (Suc k) tg st ch g r2 i =
     (case r2 of
        None \<Rightarrow> Some (st, g)
      | Some j \<Rightarrow>
          if j \<ge> length g then None
          else (case prop' k tg st ch g (Some j) (refbehind (g ! i)) (calbehind (g ! i)) of
                  None \<Rightarrow> None
                | Some (st, g) \<Rightarrow> prop_p2 k tg st ch g (p2link (g ! j)) i))"
  by pat_completeness auto
termination
  by (relation "measure (\<lambda>x. case x of Inl (k, _) \<Rightarrow> k | Inr (Inl (k, _)) \<Rightarrow> k
                                   | Inr (Inr (k, _)) \<Rightarrow> k)") auto

section \<open>Isolating regions (paint1 and pass 5 of regopt)\<close>

definition CLOAD :: int where "CLOAD = 5"
definition CREF :: int where "CREF = 5"
definition NRGN :: nat where "NRGN = 600"

text \<open>
  Modelled from the spec: \<open>nopout\<close> (gsubr.c, not under src/), which \<open>excise\<close> calls:
  an excised instruction stays in the chain as a no-op, \<^verbatim>\<open>ANOP\<close> with zeroed
  operands, and the last loop of \<open>regopt\<close> unlinks the no-ops.
\<close>

definition nopout :: "Prog \<Rightarrow> Prog" where
  "nopout p = p\<lparr>as := ANOP, from := from zprog, to := to zprog\<rparr>"

text \<open>
  \<open>paint1\<close> marks the region of variable \<open>bn\<close> around node \<open>r\<close> in \<open>act\<close> and adds
  its cost to \<open>change\<close> (here \<open>chg\<close>). Same shape as \<open>paint2\<close>.
\<close>

fun paint1_back :: "nat \<Rightarrow> Reg list \<Rightarrow> nat \<Rightarrow> nat \<Rightarrow> nat option" where
  "paint1_back 0 g r bn = None"
| "paint1_back (Suc k) g r bn =
     (if \<not> btest (refbehind (g ! r)) bn then Some r
      else case p1 (g ! r) of
             None \<Rightarrow> Some r
           | Some r1 \<Rightarrow>
               if r1 \<ge> length g then None
               else if \<not> btest (refahead (g ! r1)) bn then Some r
               else if btest (act (g ! r1)) bn then Some r
               else paint1_back k g r1 bn)"

function (sequential) paint1 :: "nat \<Rightarrow> Prog list \<Rightarrow> Reg list \<Rightarrow> int \<Rightarrow> nat \<Rightarrow> nat \<Rightarrow> (int \<times> Reg list) option"
and paint1_fwd :: "nat \<Rightarrow> Prog list \<Rightarrow> Reg list \<Rightarrow> int \<Rightarrow> nat \<Rightarrow> nat \<Rightarrow> (int \<times> Reg list) option"
and paint1_p2 :: "nat \<Rightarrow> Prog list \<Rightarrow> Reg list \<Rightarrow> int \<Rightarrow> nat option \<Rightarrow> nat
                    \<Rightarrow> (int \<times> Reg list) option"
where
  "paint1 0 ch g chg r bn = None"
| "paint1 (Suc k) ch g chg r bn =
     (if r \<ge> length g then None
      else if btest (act (g ! r)) bn then Some (chg, g)
      else case paint1_back k g r bn of
             None \<Rightarrow> None
           | Some r0 \<Rightarrow>
               let x = g ! r0;
                   chg = (if (\<not> btest (refbehind x) bn \<and> btest (refahead x) bn)
                             \<and> \<not> (btest (rset x) bn \<and> \<not> (btest (use1 x) bn \<or> btest (use2 x) bn))
                          then chg - CLOAD * loop x else chg)
               in paint1_fwd k ch g chg r0 bn)"
| "paint1_fwd 0 ch g chg r bn = None"
| "paint1_fwd (Suc k) ch g chg r bn =
     (if prog (g ! r) \<ge> length ch then None
      else
        let g = g[r := (g ! r)\<lparr>act := biset (act (g ! r)) bn\<rparr>];
            x = g ! r;
            chg = (if as (ch ! prog x) \<noteq> ANOP
                   then chg + (if btest (use1 x) bn then CREF * loop x else 0)
                            + (if btest (use2 x) bn \<or> btest (rset x) bn then CREF * loop x else 0)
                   else chg);
            chg = (if (\<not> btest (calbehind x) bn \<and> btest (calahead x) bn) \<and> btest (regdiff x) bn
                   then chg - CLOAD * loop x else chg)
        in case (if btest (refbehind x) bn then paint1_p2 k ch g chg (p2 x) bn
                 else Some (chg, g)) of
             None \<Rightarrow> None
           | Some (chg, g) \<Rightarrow>
               if \<not> btest (refahead (g ! r)) bn then Some (chg, g)
               else
                 (case (case s2 (g ! r) of
                          None \<Rightarrow> Some (chg, g)
                        | Some r1 \<Rightarrow>
                            if r1 \<ge> length g then None
                            else if btest (refbehind (g ! r1)) bn then paint1 k ch g chg r1 bn
                            else Some (chg, g)) of
                    None \<Rightarrow> None
                  | Some (chg, g) \<Rightarrow>
                      (case s1 (g ! r) of
                         None \<Rightarrow> Some (chg, g)
                       | Some rn \<Rightarrow>
                           if rn \<ge> length g then None
                           else if btest (act (g ! rn)) bn then Some (chg, g)
                           else if \<not> btest (refbehind (g ! rn)) bn then Some (chg, g)
                           else paint1_fwd k ch g chg rn bn)))"
| "paint1_p2 0 ch g chg ro bn = None"
| "paint1_p2 (Suc k) ch g chg ro bn =
     (case ro of
        None \<Rightarrow> Some (chg, g)
      | Some r1 \<Rightarrow>
          if r1 \<ge> length g then None
          else (case (if btest (refahead (g ! r1)) bn then paint1 k ch g chg r1 bn
                      else Some (chg, g)) of
                  None \<Rightarrow> None
                | Some (chg, g) \<Rightarrow> paint1_p2 k ch g chg (p2link (g ! r1)) bn))"
  by pat_completeness auto
termination
  by (relation "measure (\<lambda>x. case x of Inl (k, _) \<Rightarrow> k | Inr (Inl (k, _)) \<Rightarrow> k
                                   | Inr (Inr (k, _)) \<Rightarrow> k)") auto

text \<open>
  The inner loop of pass 5 at node \<open>r\<close> (reg.c, lines 361 to 378) over the bits of the
  candidate set, lowest first: a region is recorded for every bit whose \<open>paint1\<close> cost
  is positive. The last component of the result says whether the loop left through
  \<^verbatim>\<open>goto brk\<close> (\<open>NRGN\<close> regions). \<^verbatim>\<open>rgp->cost = change\<close> and \<^verbatim>\<open>rgp->varno = i\<close>
  store an int in a short.
\<close>

fun regopt_pass5_bits ::
  "nat \<Rightarrow> Prog list \<Rightarrow> nat \<Rightarrow> nat list \<Rightarrow> Reg list \<Rightarrow> Rgn list
     \<Rightarrow> (Reg list \<times> Rgn list \<times> bool) option"
where
  "regopt_pass5_bits k ch r [] g rgns = Some (g, rgns, False)"
| "regopt_pass5_bits k ch r (i # is) g rgns =
     (case paint1 k ch g 0 r i of
        None \<Rightarrow> None
      | Some (chg, g) \<Rightarrow>
          if chg \<le> 0 then regopt_pass5_bits k ch r is g rgns
          else
            let rgns = rgns @ [\<lparr>enter = r, cost = word_of_int chg,
                                varno = word_of_int (int i), regno = 0\<rparr>]
            in if length rgns \<ge> NRGN then Some (g, rgns, True)
               else regopt_pass5_bits k ch r is g rgns)"

text \<open>
  The candidate set of node \<open>r\<close> (reg.c, lines 359 and 360):
  \<^verbatim>\<open>bit.b[z] = LOAD(r) & ~(r->act.b[z] | addrs.b[z])\<close> with
  \<^verbatim>\<open>LOAD(r) = ~r->refbehind.b[z] & r->refahead.b[z]\<close>.
\<close>

definition regopt_pass5_candidates :: "target \<Rightarrow> regstate \<Rightarrow> Reg \<Rightarrow> Bits" where
  "regopt_pass5_candidates tg st x =
     bandnot tg (bandnot tg (refahead x) (refbehind x)) (bor tg (act x) (addrs st))"

text \<open>
  Pass 5 at node \<open>r\<close> (reg.c, lines 350 to 378): an instruction that sets a variable
  nobody uses is excised, then the regions that start at \<open>r\<close> are recorded.
\<close>

definition regopt_pass5_node ::
  "nat \<Rightarrow> target \<Rightarrow> regstate \<Rightarrow> Prog list \<Rightarrow> Reg list \<Rightarrow> Rgn list \<Rightarrow> nat
     \<Rightarrow> (Prog list \<times> Reg list \<times> Rgn list \<times> bool) option"
where
  "regopt_pass5_node k tg st ch g rgns r =
     (if r \<ge> length g \<or> prog (g ! r) \<ge> length ch then None
      else
        let x = g ! r;
            bits = bandnot tg (rset x) (bor tg (bor tg (refahead x) (calahead x)) (addrs st));
            (ch, g) = (if bany bits \<and> \<not> refset x
                       then (ch[prog x := nopout (ch ! prog x)], g[r := x\<lparr>refset := True\<rparr>])
                       else (ch, g));
            bits = regopt_pass5_candidates tg st (g ! r)
        in case regopt_pass5_bits k ch r (filter (btest bits) [0..<64 * length bits]) g rgns of
             None \<Rightarrow> None
           | Some (g, rgns, brk) \<Rightarrow> Some (ch, g, rgns, brk))"

text \<open>Pass 5: the loop over the nodes \<open>rs\<close>, which are all nodes in the order of \<open>link\<close>.\<close>

fun regopt_pass5 ::
  "nat \<Rightarrow> target \<Rightarrow> regstate \<Rightarrow> Prog list \<Rightarrow> Reg list \<Rightarrow> Rgn list \<Rightarrow> nat list
     \<Rightarrow> (Prog list \<times> Reg list \<times> Rgn list) option"
where
  "regopt_pass5 k tg st ch g rgns [] = Some (ch, g, rgns)"
| "regopt_pass5 k tg st ch g rgns (r # rs) =
     (case regopt_pass5_node k tg st ch g rgns r of
        None \<Rightarrow> None
      | Some (ch, g, rgns, brk) \<Rightarrow>
          if brk then Some (ch, g, rgns)
          else regopt_pass5 k tg st ch g rgns rs)"

section \<open>The peephole optimizer (cmd/8g/peep.c)\<close>

text \<open>
  The state of \<open>peep\<close>: the instruction chain, the flow graph over it, the generation
  counter \<open>gactive\<close> (a uint32) and the statistic \<^verbatim>\<open>ostats.ndelmov\<close>. The list
  \<open>trace\<close> records what \<open>copy1\<close> does, as its two prints under \<^verbatim>\<open>debug['P']\<close> do:
  \<open>CopyEnter r\<close> when a call of \<open>copy1\<close> passes the test of \<open>active\<close> at node \<open>r\<close>
  (\<^verbatim>\<open>print("copy %D->%D f=%d\n", ...)\<close>) and \<open>CopyVisit r\<close> when its loop examines
  the instruction of node \<open>r\<close> (\<^verbatim>\<open>print("%P", p)\<close>).
\<close>

datatype pevent = CopyEnter nat | CopyVisit nat

record peepstate =
  chain :: "Prog list"
  graph :: "Flow list"
  gactive :: "32 word"
  ndelmov :: nat
  trace :: "pevent list"

text \<open>
  \<open>needc\<close>: is the carry bit needed, from the instruction \<open>p\<close> on. The argument is
  the chain from \<open>p\<close> on, empty for \<^verbatim>\<open>P\<close>.
\<close>

fun needc :: "target \<Rightarrow> Prog list \<Rightarrow> bool" where
  "needc tg [] = False"
| "needc tg (p # ps) =
     (let info = proginfo tg p
      in if UseCarry \<in> set (flags info) then True
         else if SetCarry \<in> set (flags info) \<or> KillCarry \<in> set (flags info) then False
         else needc tg ps)"

definition regtyp :: "target \<Rightarrow> Addr \<Rightarrow> bool" where
  "regtyp tg a \<longleftrightarrow>
     type a = TYPE_REG
     \<and> (REG_AX tg \<le> reg a \<and> reg a \<le> REG_DI tg \<or> REG_X0 tg \<le> reg a \<and> reg a \<le> REG_X7 tg)"

text \<open>
  Modelled from the spec: \<open>uniqp\<close> and \<open>uniqs\<close> (gc/popt.c, not under src/), the
  single predecessor and the single successor of a flow node, \<open>None\<close> when the node
  has none or has two: the peephole pass works in a single-predecessor,
  single-successor window.
\<close>

definition uniqp :: "Flow list \<Rightarrow> nat \<Rightarrow> nat option" where
  "uniqp g r =
     (case p1 (g ! r) of
        None \<Rightarrow>
          (case p2 (g ! r) of
             None \<Rightarrow> None
           | Some r1 \<Rightarrow> if r1 \<ge> length g \<or> p2link (g ! r1) \<noteq> None then None else Some r1)
      | Some r1 \<Rightarrow> if p2 (g ! r) \<noteq> None then None else Some r1)"

definition uniqs :: "Flow list \<Rightarrow> nat \<Rightarrow> nat option" where
  "uniqs g r =
     (case s1 (g ! r) of
        None \<Rightarrow> s2 (g ! r)
      | Some r1 \<Rightarrow> if s2 (g ! r) \<noteq> None then None else Some r1)"

text \<open>
  \<open>rnops\<close>: skip the no-ops without operands that have a single successor. \<open>k\<close>
  bounds the steps of the loop.
\<close>

fun rnops :: "nat \<Rightarrow> peepstate \<Rightarrow> nat option \<Rightarrow> error + nat option" where
  "rnops 0 st r = Inl OutOfFuel"
| "rnops (Suc k) st None = Inr None"
| "rnops (Suc k) st (Some r) =
     (if r \<ge> length (graph st) \<or> prog (graph st ! r) \<ge> length (chain st) then Inl BadPointer
      else
        let p = chain st ! prog (graph st ! r)
        in if as p \<noteq> ANOP \<or> type (from p) \<noteq> TYPE_NONE \<or> type (to p) \<noteq> TYPE_NONE
           then Inr (Some r)
           else case uniqs (graph st) r of
                  None \<Rightarrow> Inr (Some r)
                | Some r1 \<Rightarrow> rnops k st (Some r1))"

text \<open>\<open>excise\<close>: the instruction of node \<open>r\<close> becomes a no-op.\<close>

definition excise :: "peepstate \<Rightarrow> nat \<Rightarrow> peepstate" where
  "excise st r =
     st\<lparr>chain := (chain st)[prog (graph st ! r) := nopout (chain st ! prog (graph st ! r))],
        ndelmov := ndelmov st + 1\<rparr>"

text \<open>
  \<open>elimshortmov\<close> for one instruction \<open>p\<close>, followed in the chain by \<open>rest\<close>
  (\<^verbatim>\<open>p->link\<close> and on), and the loop over the flow nodes.
\<close>

definition elimshortmov_prog :: "target \<Rightarrow> Prog \<Rightarrow> Prog list \<Rightarrow> Prog" where
  "elimshortmov_prog tg p0 rest =
     (if regtyp tg (to p0)
      then
        let p = (if as p0 = AINCB \<or> as p0 = AINCW then p0\<lparr>as := AINCL\<rparr>
                 else if as p0 = ADECB \<or> as p0 = ADECW then p0\<lparr>as := ADECL\<rparr>
                 else if as p0 = ANEGB \<or> as p0 = ANEGW then p0\<lparr>as := ANEGL\<rparr>
                 else if as p0 = ANOTB \<or> as p0 = ANOTW then p0\<lparr>as := ANOTL\<rparr>
                 else p0)
        in if regtyp tg (from p) \<or> type (from p) = TYPE_CONST
           then (if as p = AMOVB \<or> as p = AMOVW then p\<lparr>as := AMOVL\<rparr>
                 else if as p = AADDB \<or> as p = AADDW
                 then (if \<not> needc tg rest then p\<lparr>as := AADDL\<rparr> else p)
                 else if as p = ASUBB \<or> as p = ASUBW
                 then (if \<not> needc tg rest then p\<lparr>as := ASUBL\<rparr> else p)
                 else if as p = AMULB \<or> as p = AMULW then p\<lparr>as := AMULL\<rparr>
                 else if as p = AIMULB \<or> as p = AIMULW then p\<lparr>as := AIMULL\<rparr>
                 else if as p = AANDB \<or> as p = AANDW then p\<lparr>as := AANDL\<rparr>
                 else if as p = AORB \<or> as p = AORW then p\<lparr>as := AORL\<rparr>
                 else if as p = AXORB \<or> as p = AXORW then p\<lparr>as := AXORL\<rparr>
                 else if as p = ASHLB \<or> as p = ASHLW then p\<lparr>as := ASHLL\<rparr>
                 else p)
           else (if as p = AMOVB then p\<lparr>as := AMOVBLZX\<rparr>
                 else if as p = AMOVW then p\<lparr>as := AMOVWLZX\<rparr>
                 else p)
      else p0)"

definition elimshortmov_node :: "target \<Rightarrow> Prog list \<Rightarrow> nat \<Rightarrow> Prog list" where
  "elimshortmov_node tg ch i = ch[i := elimshortmov_prog tg (ch ! i) (drop (Suc i) ch)]"

definition elimshortmov :: "target \<Rightarrow> peepstate \<Rightarrow> peepstate" where
  "elimshortmov tg st =
     st\<lparr>chain := foldl (\<lambda>ch r. elimshortmov_node tg ch (prog r)) (chain st) (graph st)\<rparr>"

text \<open>
  \<open>copyas\<close>, \<open>copyau\<close> and \<open>copysub\<close>. \<open>copysub\<close> returns the operand \<open>a\<close>, in
  which \<open>s\<close> replaces \<open>v\<close> when \<open>f\<close> is set, and whether the substitution failed.
\<close>

definition copyas :: "target \<Rightarrow> Addr \<Rightarrow> Addr \<Rightarrow> error + bool" where
  "copyas tg a v =
     (if REG_AL tg \<le> reg a \<and> reg a \<le> REG_BL tg then Inl (Fatal ''use of byte register'')
      else if REG_AL tg \<le> reg v \<and> reg v \<le> REG_BL tg then Inl (Fatal ''use of byte register'')
      else if type a \<noteq> type v \<or> Addr.name a \<noteq> Addr.name v \<or> reg a \<noteq> reg v then Inr False
      else if regtyp tg v then Inr True
      else if type v = TYPE_MEM \<and> (Addr.name v = NAME_AUTO \<or> Addr.name v = NAME_PARAM)
              \<and> Addr.offset v = Addr.offset a
      then Inr True
      else Inr False)"

definition copyau :: "target \<Rightarrow> Addr \<Rightarrow> Addr \<Rightarrow> error + bool" where
  "copyau tg a v =
     ebind (copyas tg a v) (\<lambda>b.
       if b then Inr True
       else if regtyp tg v
       then (if type a = TYPE_MEM \<and> reg a = reg v then Inr True
             else if index a = reg v then Inr True
             else Inr False)
       else Inr False)"

definition copysub :: "target \<Rightarrow> Addr \<Rightarrow> Addr \<Rightarrow> Addr \<Rightarrow> bool \<Rightarrow> error + (bool \<times> Addr)" where
  "copysub tg a v s f =
     ebind (copyas tg a v) (\<lambda>b.
       if b
       then (let r = reg s
             in if (r \<ge> REG_AX tg \<and> r \<le> REG_DI tg \<or> r \<ge> REG_X0 tg \<and> r \<le> REG_X7 tg) \<and> f
                then Inr (False, a\<lparr>reg := r\<rparr>)
                else Inr (False, a))
       else if regtyp tg v
       then (let r = reg v
             in if type a = TYPE_MEM \<and> reg a = r \<and> reg s = REG_BP tg \<and> index a \<noteq> 0
                then Inr (True, a)
                else
                  let a = (if type a = TYPE_MEM \<and> reg a = r \<and> f then a\<lparr>reg := reg s\<rparr> else a);
                      a = (if index a = r \<and> f then a\<lparr>index := reg s\<rparr> else a)
                  in Inr (False, a))
       else Inr (False, a))"

text \<open>
  \<open>copyu\<close>: how instruction \<open>p\<close> touches \<open>v\<close> (1 used, 2 read-alter-rewrite, 3 set,
  4 set and used, 0 not touched); with \<open>s\<close> given, \<open>s\<close> is substituted for \<open>v\<close> in
  \<open>p\<close> and the result is 1 when that failed. The second component is \<open>p\<close> after the
  call. \<^verbatim>\<open>REGEXT\<close> is 0 in peep.c, which removes the first test of the \<^verbatim>\<open>ACALL\<close> case.
\<close>

definition copyu :: "target \<Rightarrow> Prog \<Rightarrow> Addr \<Rightarrow> Addr option \<Rightarrow> error + (nat \<times> Prog)" where
  "copyu tg p v so =
     (let regarg = REGARG tg \<ge> 0 \<and> type v = TYPE_REG \<and> reg v = REGARG tg mod 256;
          sub_to = (\<lambda>s. ebind (copysub tg (to p) v s True)
                            (\<lambda>(fail, a). Inr (if fail then 1 else 0, p\<lparr>to := a\<rparr>)))
      in if as p = AJMP
         then (case so of
                 Some s \<Rightarrow> sub_to s
               | None \<Rightarrow> ebind (copyau tg (to p) v) (\<lambda>b. Inr (if b then 1 else 0, p)))
         else if as p = ARET
         then (case so of Some s \<Rightarrow> Inr (1, p) | None \<Rightarrow> Inr (3, p))
         else if as p = ACALL
         then (if regarg then Inr (2, p)
               else if type v = type (from p) \<and> reg v = reg (from p) then Inr (2, p)
               else case so of
                      Some s \<Rightarrow> sub_to s
                    | None \<Rightarrow> ebind (copyau tg (to p) v) (\<lambda>b. Inr (if b then 4 else 3, p)))
         else if as p = ATEXT
         then (if regarg then Inr (3, p) else Inr (0, p))
         else if as p = AVARDEF \<or> as p = AVARKILL then Inr (0, p)
         else
           let info = proginfo tg p;
               fl = set (flags info)
           in if (reguse info OR regset info) AND RtoB8 tg (reg v) \<noteq> 0 then Inr (2, p)
              else
                ebind (if LeftAddr \<in> fl then copyas tg (from p) v else Inr False) (\<lambda>b1.
                if b1 then Inr (2, p)
                else
                  ebind (if RightRead \<in> fl \<and> RightWrite \<in> fl then copyas tg (to p) v
                         else Inr False) (\<lambda>b2.
                  if b2 then Inr (2, p)
                  else
                    ebind (if RightWrite \<in> fl then copyas tg (to p) v else Inr False) (\<lambda>b3.
                    if b3
                    then (case so of
                            Some s \<Rightarrow>
                              ebind (copysub tg (from p) v s True)
                                (\<lambda>(fail, a). Inr (if fail then 1 else 0, p\<lparr>from := a\<rparr>))
                          | None \<Rightarrow>
                              ebind (copyau tg (from p) v) (\<lambda>b. Inr (if b then 4 else 3, p)))
                    else if fl \<inter> {LeftAddr, LeftRead, LeftWrite, RightAddr, RightRead, RightWrite}
                            \<noteq> {}
                    then (case so of
                            Some s \<Rightarrow>
                              ebind (copysub tg (from p) v s True) (\<lambda>(fail, a).
                                if fail then Inr (1, p\<lparr>from := a\<rparr>)
                                else ebind (copysub tg (to p) v s True) (\<lambda>(fail, b).
                                       Inr (if fail then 1 else 0, p\<lparr>from := a, to := b\<rparr>)))
                          | None \<Rightarrow>
                              ebind (copyau tg (from p) v) (\<lambda>b.
                                if b then Inr (1, p)
                                else ebind (copyau tg (to p) v) (\<lambda>b.
                                       Inr (if b then 1 else 0, p))))
                    else Inr (0, p)))))"

text \<open>
  Copy propagation. The move under study is the instruction \<open>i0\<close> of the chain;
  \<^verbatim>\<open>v1\<close> and \<^verbatim>\<open>v2\<close> point to its operands \<open>from\<close> and \<open>to\<close>, and are read from
  the chain where the source reads through the pointers. \<open>copy1\<close> is recursive over the
  graph: \<open>k\<close> bounds the steps, \<open>copy1_loop\<close> is its \<^verbatim>\<open>for\<close> loop from node \<open>ro\<close> on
  and \<open>copy1_next\<close> the end of the loop body (from the test \<^verbatim>\<open>if(!f)\<close> on). The
  result is the value returned (0 or 1) and the new state.
\<close>

function (sequential) copy1 ::
  "nat \<Rightarrow> target \<Rightarrow> peepstate \<Rightarrow> nat \<Rightarrow> nat option \<Rightarrow> bool \<Rightarrow> error + (nat \<times> peepstate)"
and copy1_loop ::
  "nat \<Rightarrow> target \<Rightarrow> peepstate \<Rightarrow> nat \<Rightarrow> nat option \<Rightarrow> bool \<Rightarrow> error + (nat \<times> peepstate)"
and copy1_next ::
  "nat \<Rightarrow> target \<Rightarrow> peepstate \<Rightarrow> nat \<Rightarrow> nat \<Rightarrow> bool \<Rightarrow> error + (nat \<times> peepstate)"
where
  "copy1 0 tg st i0 ro f = Inl OutOfFuel"
| "copy1 (Suc k) tg st i0 ro f =
     (case ro of
        None \<Rightarrow> Inl BadPointer
      | Some r \<Rightarrow>
          if r \<ge> length (graph st) then Inl BadPointer
          else if active (graph st ! r) = gactive st then Inr (1, st)
          else copy1_loop k tg
                 (st\<lparr>graph := (graph st)[r := (graph st ! r)\<lparr>active := gactive st\<rparr>],
                     trace := trace st @ [CopyEnter r]\<rparr>)
                 i0 (Some r) f)"
| "copy1_loop 0 tg st i0 ro f = Inl OutOfFuel"
| "copy1_loop (Suc k) tg st i0 ro f =
     (case ro of
        None \<Rightarrow> Inr (1, st)
      | Some r \<Rightarrow>
          if r \<ge> length (graph st) \<or> prog (graph st ! r) \<ge> length (chain st)
             \<or> i0 \<ge> length (chain st)
          then Inl BadPointer
          else
            let st = st\<lparr>trace := trace st @ [CopyVisit r]\<rparr>;
                pi = prog (graph st ! r);
                f = (if \<not> f \<and> uniqp (graph st) r = None then True else f)
            in ebind (copyu tg (chain st ! pi) (to (chain st ! i0)) None) (\<lambda>(t, _).
                 if t = 2 then Inr (0, st)
                 else if t = 3 then Inr (1, st)
                 else if t = 1 \<or> t = 4
                 then (if f then Inr (0, st)
                       else
                         ebind (copyu tg (chain st ! pi) (to (chain st ! i0))
                                  (Some (from (chain st ! i0)))) (\<lambda>(fail, p).
                           let st = st\<lparr>chain := (chain st)[pi := p]\<rparr>
                           in if fail \<noteq> 0 then Inr (0, st)
                              else if t = 4 then Inr (1, st)
                              else copy1_next k tg st i0 r f))
                 else copy1_next k tg st i0 r f))"
| "copy1_next 0 tg st i0 r f = Inl OutOfFuel"
| "copy1_next (Suc k) tg st i0 r f =
     ebind (if \<not> f
            then ebind (copyu tg (chain st ! prog (graph st ! r)) (from (chain st ! i0)) None)
                   (\<lambda>(t, _). Inr (t = 2 \<or> t = 3 \<or> t = 4))
            else Inr f) (\<lambda>f.
       case s2 (graph st ! r) of
         None \<Rightarrow> copy1_loop k tg st i0 (s1 (graph st ! r)) f
       | Some r2 \<Rightarrow>
           ebind (copy1 k tg st i0 (Some r2) f) (\<lambda>(res, st).
             if res = 0 then Inr (0, st)
             else copy1_loop k tg st i0 (s1 (graph st ! r)) f))"
  by pat_completeness auto
termination
  by (relation "measure (\<lambda>x. case x of Inl (k, _) \<Rightarrow> k | Inr (Inl (k, _)) \<Rightarrow> k
                                   | Inr (Inr (k, _)) \<Rightarrow> k)") auto

text \<open>\<open>copyprop\<close> for the move at node \<open>r0\<close>: a new generation, then \<open>copy1\<close>.\<close>

definition copyprop :: "nat \<Rightarrow> target \<Rightarrow> peepstate \<Rightarrow> nat \<Rightarrow> error + (nat \<times> peepstate)" where
  "copyprop k tg st r0 =
     (let p = chain st ! prog (graph st ! r0)
      in ebind (copyas tg (from p) (to p)) (\<lambda>b.
           if b then Inr (1, st)
           else copy1 k tg (st\<lparr>gactive := gactive st + 1\<rparr>) (prog (graph st ! r0))
                  (s1 (graph st ! r0)) False))"

text \<open>
  \<open>subprop\<close>. \<open>subprop_find\<close> is the first loop, back along single predecessors from
  \<open>ro\<close>: its result is the node reached at \<^verbatim>\<open>gotit\<close>, or \<open>None\<close> for
  \<^verbatim>\<open>return 0\<close>. \<open>subprop_subst\<close> is the loop after \<^verbatim>\<open>gotit\<close>, forward from \<open>ro\<close>
  to \<open>r0\<close>.
\<close>

fun subprop_find :: "nat \<Rightarrow> target \<Rightarrow> peepstate \<Rightarrow> nat \<Rightarrow> nat option \<Rightarrow> error + nat option" where
  "subprop_find 0 tg st i0 ro = Inl OutOfFuel"
| "subprop_find (Suc k) tg st i0 None = Inr None"
| "subprop_find (Suc k) tg st i0 (Some r) =
     (if r \<ge> length (graph st) \<or> prog (graph st ! r) \<ge> length (chain st) then Inl BadPointer
      else if uniqs (graph st) r = None then Inr None
      else
        let p = chain st ! prog (graph st ! r);
            v1 = from (chain st ! i0);
            v2 = to (chain st ! i0);
            info = proginfo tg p
        in if as p = AVARDEF \<or> as p = AVARKILL
           then subprop_find k tg st i0 (uniqp (graph st) r)
           else if Call \<in> set (flags info) then Inr None
           else if reguse info OR regset info \<noteq> 0 then Inr None
           else if Move \<in> set (flags info)
                   \<and> set (flags info) \<inter> {SizeL, SizeQ, SizeF, SizeD} \<noteq> {}
                   \<and> type (to p) = type v1 \<and> reg (to p) = reg v1
           then Inr (Some r)
           else
             ebind (copyau tg (from p) v2) (\<lambda>b1.
             ebind (if b1 then Inr True else copyau tg (to p) v2) (\<lambda>b2.
               if b2 then Inr None
               else
                 ebind (copysub tg (from p) v1 v2 False) (\<lambda>(c1, _).
                 ebind (if c1 then Inr (True, to p) else copysub tg (to p) v1 v2 False) (\<lambda>(c2, _).
                   if c2 then Inr None
                   else subprop_find k tg st i0 (uniqp (graph st) r))))))"

fun subprop_subst :: "nat \<Rightarrow> target \<Rightarrow> peepstate \<Rightarrow> nat \<Rightarrow> nat \<Rightarrow> nat option \<Rightarrow> error + peepstate"
where
  "subprop_subst 0 tg st i0 r0 ro = Inl OutOfFuel"
| "subprop_subst (Suc k) tg st i0 r0 None = Inl BadPointer"
| "subprop_subst (Suc k) tg st i0 r0 (Some r) =
     (if r = r0 then Inr st
      else if r \<ge> length (graph st) \<or> prog (graph st ! r) \<ge> length (chain st)
      then Inl BadPointer
      else
        let pi = prog (graph st ! r)
        in ebind (copysub tg (from (chain st ! pi)) (from (chain st ! i0)) (to (chain st ! i0)) True)
             (\<lambda>(_, a).
               let st = st\<lparr>chain := (chain st)[pi := (chain st ! pi)\<lparr>from := a\<rparr>]\<rparr>
               in ebind (copysub tg (to (chain st ! pi)) (from (chain st ! i0))
                           (to (chain st ! i0)) True)
                    (\<lambda>(_, b).
                      let st = st\<lparr>chain := (chain st)[pi := (chain st ! pi)\<lparr>to := b\<rparr>]\<rparr>
                      in subprop_subst k tg st i0 r0 (uniqs (graph st) r))))"

definition subprop :: "nat \<Rightarrow> target \<Rightarrow> peepstate \<Rightarrow> nat \<Rightarrow> error + (nat \<times> peepstate)" where
  "subprop k tg st r0 =
     (let i0 = prog (graph st ! r0);
          p = chain st ! i0
      in if \<not> regtyp tg (from p) then Inr (0, st)
         else if \<not> regtyp tg (to p) then Inr (0, st)
         else
           ebind (subprop_find k tg st i0 (uniqp (graph st) r0)) (\<lambda>found.
             case found of
               None \<Rightarrow> Inr (0, st)
             | Some r \<Rightarrow>
                 let pi = prog (graph st ! r)
                 in ebind (copysub tg (to (chain st ! pi)) (from (chain st ! i0))
                             (to (chain st ! i0)) True)
                      (\<lambda>(_, a).
                        let st = st\<lparr>chain := (chain st)[pi := (chain st ! pi)\<lparr>to := a\<rparr>]\<rparr>
                        in ebind (subprop_subst k tg st i0 r0 (uniqs (graph st) r)) (\<lambda>st.
                             let q = chain st ! i0;
                                 t = reg (from q);
                                 q = q\<lparr>from := (from q)\<lparr>reg := reg (to q)\<rparr>\<rparr>;
                                 q = q\<lparr>to := (to q)\<lparr>reg := t\<rparr>\<rparr>
                             in Inr (1, st\<lparr>chain := (chain st)[i0 := q]\<rparr>)))))"

text \<open>
  IEEE-754 equality of two float64 values given by their bit patterns
  (\<^verbatim>\<open>p->from.u.dval == p0->from.u.dval\<close>): a NaN equals nothing, the two zeros are
  equal.
\<close>

definition dval_isnan :: "64 word \<Rightarrow> bool" where
  "dval_isnan w \<longleftrightarrow> w AND 0x7FFFFFFFFFFFFFFF > 0x7FF0000000000000"

definition dval_eq :: "64 word \<Rightarrow> 64 word \<Rightarrow> bool" where
  "dval_eq a b \<longleftrightarrow>
     \<not> dval_isnan a \<and> \<not> dval_isnan b
     \<and> (a = b \<or> (a AND 0x7FFFFFFFFFFFFFFF = 0 \<and> b AND 0x7FFFFFFFFFFFFFFF = 0))"

text \<open>
  \<open>conprop\<close> for the constant load at node \<open>r0\<close>: \<open>conprop_loop\<close> is the code from
  the label \<^verbatim>\<open>loop\<close> on, with \<open>r\<close> the current node.
\<close>

fun conprop_loop :: "nat \<Rightarrow> target \<Rightarrow> peepstate \<Rightarrow> nat \<Rightarrow> nat \<Rightarrow> error + peepstate" where
  "conprop_loop 0 tg st r0 r = Inl OutOfFuel"
| "conprop_loop (Suc k) tg st r0 r =
     (case uniqs (graph st) r of
        None \<Rightarrow> Inr st
      | Some r \<Rightarrow>
          if r = r0 then Inr st
          else if r \<ge> length (graph st) \<or> prog (graph st ! r) \<ge> length (chain st)
          then Inl BadPointer
          else if uniqp (graph st) r = None then Inr st
          else
            let p = chain st ! prog (graph st ! r);
                p0 = chain st ! prog (graph st ! r0)
            in ebind (copyu tg p (to p0) None) (\<lambda>(t, _).
                 if t = 0 \<or> t = 1 then conprop_loop k tg st r0 r
                 else if t = 3
                 then (if as p = as p0
                          \<and> type (from p) = type (from p0)
                          \<and> reg (from p) = reg (from p0)
                          \<and> Addr.node (from p) = Addr.node (from p0)
                          \<and> Addr.offset (from p) = Addr.offset (from p0)
                          \<and> scale (from p) = scale (from p0)
                          \<and> (type (from p) = TYPE_FCONST
                              \<and> dval_eq (dval (from p)) (dval (from p0)))
                          \<and> index (from p) = index (from p0)
                       then conprop_loop k tg (excise st r) r0 r
                       else Inr st)
                 else Inr st))"

definition conprop :: "nat \<Rightarrow> target \<Rightarrow> peepstate \<Rightarrow> nat \<Rightarrow> error + peepstate" where
  "conprop k tg st r0 = conprop_loop k tg st r0 r0"

text \<open>
  Modelled from the spec: \<open>flowstart\<close> (gc/popt.c, not under src/). The graph has
  one flow node per instruction, in the order of the chain; the successor \<open>s1\<close> is the
  next instruction where control falls through (the instruction is not marked
  \<open>Break\<close>), \<open>s2\<close> is the target of a branch, and the predecessor edges are the
  transpose: \<open>p1\<close> for \<open>s1\<close>, and for \<open>s2\<close> the list that starts at \<open>p2\<close> of the
  target and follows \<open>p2link\<close>, latest branch first. There is no graph for an empty
  chain.
\<close>

definition flowstart_s2 :: "Prog list \<Rightarrow> nat \<Rightarrow> nat option" where
  "flowstart_s2 ch k =
     (if type (to (ch ! k)) = TYPE_BRANCH
      then (case branch (to (ch ! k)) of
              None \<Rightarrow> None
            | Some j \<Rightarrow> if j \<noteq> k \<and> j < length ch then Some j else None)
      else None)"

definition flowstart_node :: "target \<Rightarrow> Prog list \<Rightarrow> nat \<Rightarrow> Flow" where
  "flowstart_node tg ch k =
     \<lparr>prog = k,
      p1 = (if 0 < k \<and> Break \<notin> set (flags (proginfo tg (ch ! (k - 1)))) then Some (k - 1)
            else None),
      p2 = (case filter (\<lambda>k'. flowstart_s2 ch k' = Some k) (rev [0..<length ch]) of
              [] \<Rightarrow> None | k' # _ \<Rightarrow> Some k'),
      p2link = (case flowstart_s2 ch k of
                  None \<Rightarrow> None
                | Some j \<Rightarrow>
                    (case filter (\<lambda>k'. flowstart_s2 ch k' = Some j) (rev [0..<k]) of
                       [] \<Rightarrow> None | k' # _ \<Rightarrow> Some k')),
      s1 = (if Suc k < length ch \<and> Break \<notin> set (flags (proginfo tg (ch ! k))) then Some (Suc k)
            else None),
      s2 = flowstart_s2 ch k,
      active = 0, loop = 0, refset = False\<rparr>"

definition flowstart :: "target \<Rightarrow> Prog list \<Rightarrow> Flow list option" where
  "flowstart tg ch =
     (if ch = [] then None else Some (map (flowstart_node tg ch) [0..<length ch]))"

text \<open>
  The body of the main loop of \<open>peep\<close> for node \<open>r\<close> (peep.c, lines 135 to 212). The
  result is the increment of the counter \<open>t\<close> and the new state.
\<close>

definition peep_node :: "nat \<Rightarrow> target \<Rightarrow> peepstate \<Rightarrow> nat \<Rightarrow> error + (nat \<times> peepstate)" where
  "peep_node k tg st r =
     (let pi = prog (graph st ! r);
          p = chain st ! pi
      in if as p = AMOVL \<or> as p = AMOVSS \<or> as p = AMOVSD
         then (if regtyp tg (to p) \<and> regtyp tg (from p)
               then ebind (copyprop k tg st r) (\<lambda>(c, st).
                      if c \<noteq> 0 then Inr (1, excise st r)
                      else ebind (subprop k tg st r) (\<lambda>(sp, st).
                             if sp = 0 then Inr (0, st)
                             else ebind (copyprop k tg st r) (\<lambda>(c, st).
                                    if c \<noteq> 0 then Inr (1, excise st r) else Inr (0, st))))
               else Inr (0, st))
         else if as p = AMOVBLZX \<or> as p = AMOVWLZX \<or> as p = AMOVBLSX \<or> as p = AMOVWLSX
         then (if regtyp tg (to p)
               then ebind (rnops k st (uniqs (graph st) r)) (\<lambda>ro.
                      case ro of
                        None \<Rightarrow> Inr (0, st)
                      | Some r1 \<Rightarrow>
                          let q = chain st ! prog (graph st ! r1)
                          in if as p = as q \<and> type (to p) = type (from q)
                                \<and> reg (to p) = reg (from q)
                             then Inr (1, st\<lparr>chain := (chain st)[prog (graph st ! r1) :=
                                                                  q\<lparr>as := AMOVL\<rparr>]\<rparr>)
                             else Inr (0, st))
               else Inr (0, st))
         else if as p = AADDL \<or> as p = AADDW
         then (if type (from p) \<noteq> TYPE_CONST \<or> needc tg (drop (Suc pi) (chain st))
               then Inr (0, st)
               else if Addr.offset (from p) = - 1
               then Inr (0, st\<lparr>chain := (chain st)[pi :=
                          p\<lparr>as := (if as p = AADDL then ADECL else ADECW),
                            from := from zprog\<rparr>]\<rparr>)
               else if Addr.offset (from p) = 1
               then Inr (0, st\<lparr>chain := (chain st)[pi :=
                          p\<lparr>as := (if as p = AADDL then AINCL else AINCW),
                            from := from zprog\<rparr>]\<rparr>)
               else Inr (0, st))
         else if as p = ASUBL \<or> as p = ASUBW
         then (if type (from p) \<noteq> TYPE_CONST \<or> needc tg (drop (Suc pi) (chain st))
               then Inr (0, st)
               else if Addr.offset (from p) = - 1
               then Inr (0, st\<lparr>chain := (chain st)[pi :=
                          p\<lparr>as := (if as p = ASUBL then AINCL else AINCW),
                            from := from zprog\<rparr>]\<rparr>)
               else if Addr.offset (from p) = 1
               then Inr (0, st\<lparr>chain := (chain st)[pi :=
                          p\<lparr>as := (if as p = ASUBL then ADECL else ADECW),
                            from := from zprog\<rparr>]\<rparr>)
               else Inr (0, st))
         else Inr (0, st))"

text \<open>
  One pass of the main loop over the nodes \<open>rs\<close> with the counter \<open>t\<close>, and the loop
  \<^verbatim>\<open>loop1: ... if(t) goto loop1;\<close>, bounded by \<open>m\<close> passes.
\<close>

fun peep_pass ::
  "nat \<Rightarrow> target \<Rightarrow> peepstate \<Rightarrow> nat list \<Rightarrow> nat \<Rightarrow> error + (nat \<times> peepstate)"
where
  "peep_pass k tg st [] t = Inr (t, st)"
| "peep_pass k tg st (r # rs) t =
     ebind (peep_node k tg st r) (\<lambda>(dt, st). peep_pass k tg st rs (t + dt))"

fun peep_loop1 :: "nat \<Rightarrow> nat \<Rightarrow> target \<Rightarrow> peepstate \<Rightarrow> error + peepstate" where
  "peep_loop1 0 k tg st = Inl OutOfFuel"
| "peep_loop1 (Suc m) k tg st =
     ebind (peep_pass k tg st [0..<length (graph st)] 0) (\<lambda>(t, st).
       if t \<noteq> 0 then peep_loop1 m k tg st else Inr st)"

text \<open>The constant propagation loop of \<open>peep\<close> (peep.c, lines 107 to 127).\<close>

fun peep_conprop :: "nat \<Rightarrow> target \<Rightarrow> peepstate \<Rightarrow> nat list \<Rightarrow> error + peepstate" where
  "peep_conprop k tg st [] = Inr st"
| "peep_conprop k tg st (r # rs) =
     (let p = chain st ! prog (graph st ! r)
      in ebind (if as p = ALEAL
                then (if regtyp tg (to p) \<and> sym (from p) \<noteq> None \<and> index (from p) = 0
                      then conprop k tg st r else Inr st)
                else if as p = AMOVB \<or> as p = AMOVW \<or> as p = AMOVL \<or> as p = AMOVSS
                        \<or> as p = AMOVSD
                then (if regtyp tg (to p)
                         \<and> (type (from p) = TYPE_CONST \<or> type (from p) = TYPE_FCONST)
                      then conprop k tg st r else Inr st)
                else Inr st)
           (\<lambda>st. peep_conprop k tg st rs))"

text \<open>The last loop of \<open>peep\<close>: a MOVSD between registers becomes MOVAPD.\<close>

definition peep_movsd :: "target \<Rightarrow> Prog \<Rightarrow> Prog" where
  "peep_movsd tg p =
     (if as p = AMOVSD \<and> regtyp tg (from p) \<and> regtyp tg (to p) then p\<lparr>as := AMOVAPD\<rparr> else p)"

text \<open>
  \<open>peep\<close> on a chain. \<open>m\<close> bounds the passes of the main loop and \<open>k\<close> the steps of
  every search in the graph.
\<close>

definition peep :: "nat \<Rightarrow> nat \<Rightarrow> target \<Rightarrow> Prog list \<Rightarrow> error + Prog list" where
  "peep m k tg firstp =
     (case flowstart tg firstp of
        None \<Rightarrow> Inr firstp
      | Some g \<Rightarrow>
          let st = \<lparr>chain = firstp, graph = g, gactive = 0, ndelmov = 0, trace = []\<rparr>;
              st = elimshortmov tg st
          in ebind (peep_conprop k tg st [0..<length (graph st)]) (\<lambda>st.
             ebind (peep_loop1 m k tg st) (\<lambda>st.
               Inr (foldl (\<lambda>ch r. ch[prog r := peep_movsd tg (ch ! prog r)]) (chain st)
                          (graph st)))))"

section \<open>Instances of the parameters\<close>

text \<open>
  \<open>bitno\<close> of gc/bits.c: the position of the lowest bit that is set.
\<close>

definition bitno32 :: "32 word \<Rightarrow> int" where
  "bitno32 b = (case find (\<lambda>i. bit b i) [0..<32] of Some i \<Rightarrow> int i | None \<Rightarrow> 0)"

text \<open>
  The entries of the instruction tables of cmd/6g/prog.c and cmd/8g/prog.c (not under
  src/) for the opcodes named above, with the flags that reg.c and peep.c test, and the
  registers an operand addresses through. \<open>rb\<close> is the \<open>RtoB\<close> of the back end and
  \<open>ax\<close> the number of its register AX.
\<close>

definition sizeflag :: "opsize \<Rightarrow> pflag" where
  "sizeflag z = (case z of SB \<Rightarrow> SizeB | SW \<Rightarrow> SizeW | SL \<Rightarrow> SizeL)"

definition progtable :: "(int \<Rightarrow> 32 word) \<Rightarrow> int \<Rightarrow> Prog \<Rightarrow> ProgInfo" where
  "progtable rb ax p =
     (let none = \<lparr>flags = [], reguse = 0, regset = 0, regindex = 0\<rparr>;
          fl = (\<lambda>xs. none\<lparr>flags := xs\<rparr>)
      in case as p of
           ANOP \<Rightarrow> fl [LeftRead, RightWrite]
         | ARET \<Rightarrow> fl [Break, KillCarry]
         | ATEXT \<Rightarrow> none
         | ACALL \<Rightarrow> fl [RightAddr, Call, KillCarry]
         | AJMP \<Rightarrow> fl [Break, KillCarry]
         | AVARDEF \<Rightarrow> fl [RightWrite]
         | AVARKILL \<Rightarrow> fl [RightWrite]
         | ALEAL \<Rightarrow> fl [LeftAddr, RightWrite]
         | AMOVB \<Rightarrow> fl [SizeB, LeftRead, RightWrite, Move]
         | AMOVW \<Rightarrow> fl [SizeW, LeftRead, RightWrite, Move]
         | AMOVL \<Rightarrow> fl [SizeL, LeftRead, RightWrite, Move]
         | AMOVQ \<Rightarrow> fl [SizeQ, LeftRead, RightWrite, Move]
         | AMOVSS \<Rightarrow> fl [SizeF, LeftRead, RightWrite, Move]
         | AMOVSD \<Rightarrow> fl [SizeD, LeftRead, RightWrite, Move]
         | AMOVAPD \<Rightarrow> fl [SizeD, LeftRead, RightWrite, Move]
         | AMOVBLZX \<Rightarrow> fl [SizeL, LeftRead, RightWrite]
         | AMOVWLZX \<Rightarrow> fl [SizeL, LeftRead, RightWrite]
         | AMOVBLSX \<Rightarrow> fl [SizeL, LeftRead, RightWrite]
         | AMOVWLSX \<Rightarrow> fl [SizeL, LeftRead, RightWrite]
         | AARITH op z \<Rightarrow>
             (case op of
                OADD \<Rightarrow> fl [sizeflag z, LeftRead, RightRead, RightWrite, SetCarry]
              | OSUB \<Rightarrow> fl [sizeflag z, LeftRead, RightRead, RightWrite, SetCarry]
              | OINC \<Rightarrow> fl [sizeflag z, RightRead, RightWrite]
              | ODEC \<Rightarrow> fl [sizeflag z, RightRead, RightWrite]
              | ONEG \<Rightarrow> fl [sizeflag z, RightRead, RightWrite, SetCarry]
              | ONOT \<Rightarrow> fl [sizeflag z, RightRead, RightWrite]
              | OMUL \<Rightarrow> \<lparr>flags = [sizeflag z, LeftRead, SetCarry], reguse = rb ax,
                         regset = (if z = SB then rb ax else rb ax OR rb (ax + 2)),
                         regindex = 0\<rparr>
              | OIMUL \<Rightarrow>
                  (if type (to p) = TYPE_NONE
                   then \<lparr>flags = [sizeflag z, LeftRead, SetCarry], reguse = rb ax,
                         regset = rb ax, regindex = 0\<rparr>
                   else fl [sizeflag z, LeftRead, RightRead, RightWrite, SetCarry])
              | OAND \<Rightarrow> fl [sizeflag z, LeftRead, RightRead, RightWrite, SetCarry]
              | OOR \<Rightarrow> fl [sizeflag z, LeftRead, RightRead, RightWrite, SetCarry]
              | OXOR \<Rightarrow> fl [sizeflag z, LeftRead, RightRead, RightWrite, SetCarry]
              | OSHL \<Rightarrow>
                  (fl [sizeflag z, LeftRead, RightRead, RightWrite, SetCarry])
                    \<lparr>reguse := (if type (from p) \<noteq> TYPE_CONST then rb (ax + 1) else 0)\<rparr>)
         | AOTHER n \<Rightarrow> none)"

definition proginfo_tab :: "(int \<Rightarrow> 32 word) \<Rightarrow> int \<Rightarrow> Prog \<Rightarrow> ProgInfo" where
  "proginfo_tab rb ax p =
     (let info = progtable rb ax p;
          x = regindex info;
          x = (if type (from p) = TYPE_MEM \<and> Addr.name (from p) = NAME_NONE
               then x OR rb (reg (from p)) else x);
          x = (if index (from p) \<noteq> 0 then x OR rb (index (from p)) else x);
          x = (if type (to p) = TYPE_MEM \<and> Addr.name (to p) = NAME_NONE
               then x OR rb (reg (to p)) else x);
          x = (if index (to p) \<noteq> 0 then x OR rb (index (to p)) else x)
      in info\<lparr>regindex := x\<rparr>)"

text \<open>
  The 386 back end (cmd/8g): the registers in the order of 8.out.h, AL to BL, AH to
  BH, AX to DI, X0 to X7; the fields of registers the 386 does not have repeat the
  last register of their class. No call is taken to be one that does not return.
\<close>

definition RtoB_386 :: "int \<Rightarrow> 32 word" where
  "RtoB_386 r = (if r < 24 \<or> r > 31 then 0 else push_bit (nat (r - 24)) 1)"

definition i386 :: target where
  "i386 = \<lparr>REG_AL = 16, REG_BL = 19, REG_R15B = 19, REG_AH = 20, REG_BH = 23,
           REG_AX = 24, REG_SP = 28, REG_BP = 29, REG_DI = 31, REG_R15 = 31,
           REG_X0 = 75, REG_X7 = 82, REG_X15 = 82, REGARG = - 1, BITS = 3, NVAR = 192,
           bitno = bitno32, RtoB8 = RtoB_386, proginfo = proginfo_tab RtoB_386 24,
           noreturn = (\<lambda>p. False)\<rparr>"

text \<open>
  The amd64 back end (cmd/6g): the registers in the order of 6.out.h, AL to R15B, AX
  to R15, AH to BH, X0 to X15.
\<close>

definition RtoB_amd64 :: "int \<Rightarrow> 32 word" where
  "RtoB_amd64 r = (if r < 32 \<or> r > 47 then 0 else push_bit (nat (r - 32)) 1)"

definition amd64 :: target where
  "amd64 = \<lparr>REG_AL = 16, REG_BL = 19, REG_R15B = 31, REG_AH = 48, REG_BH = 51,
            REG_AX = 32, REG_SP = 36, REG_BP = 37, REG_DI = 39, REG_R15 = 47,
            REG_X0 = 68, REG_X7 = 75, REG_X15 = 83, REGARG = - 1, BITS = 3, NVAR = 192,
            bitno = bitno32, RtoB8 = RtoB_amd64, proginfo = proginfo_tab RtoB_amd64 32,
            noreturn = (\<lambda>p. False)\<rparr>"

section \<open>The states of the allocator\<close>

text \<open>
  The values that the global variables of the allocator can have in \<open>regopt\<close> when
  pass 6 begins: the state after the initialization, changed by pass 1 for any
  number of instructions, by the end of pass 1, and by the calls of \<open>prop\<close> in
  pass 3. Passes 2, 4 and 5 write no global variable other than the counter
  \<open>change\<close>.
\<close>

inductive regopt_reaches :: "target \<Rightarrow> nat list \<Rightarrow> regstate \<Rightarrow> regstate \<Rightarrow> bool"
  for tg :: target and regnodes :: "nat list" and st0 :: regstate
where
  reach_init: "regopt_reaches tg regnodes st0 (regopt_init tg regnodes st0)"
| reach_pass1:
    "regopt_reaches tg regnodes st0 st \<Longrightarrow> regopt_pass1_node tg st r p = Inr (r', st')
       \<Longrightarrow> regopt_reaches tg regnodes st0 st'"
| reach_addrs:
    "regopt_reaches tg regnodes st0 st \<Longrightarrow> regopt_reaches tg regnodes st0 (regopt_addrs tg st)"
| reach_prop:
    "regopt_reaches tg regnodes st0 st \<Longrightarrow> prop' k tg st ch g r ref cal = Some (st', g')
       \<Longrightarrow> regopt_reaches tg regnodes st0 st'"
| reach_change:
    "regopt_reaches tg regnodes st0 st \<Longrightarrow> regopt_reaches tg regnodes st0 (st\<lparr>change := c\<rparr>)"

section \<open>Predicates used in the statements\<close>

text \<open>
  \<open>qsort\<close> is the C library's. What \<open>regopt\<close> can rely on is its contract for the
  comparator \<open>rcmp\<close>: the result \<open>out\<close> is a rearrangement of the regions \<open>rs\<close> in
  which no element compares greater than a later one. \<open>rgn_key\<close> is the pair that
  \<open>rcmp\<close> compares, negated so that the ascending order of pairs is the order of
  \<open>rcmp\<close>.
\<close>

definition qsorted :: "Rgn list \<Rightarrow> Rgn list \<Rightarrow> bool" where
  "qsorted rs out \<longleftrightarrow> mset out = mset rs \<and> sorted_wrt (\<lambda>a b. rcmp a b \<le> 0) out"

definition rgn_key :: "Rgn \<Rightarrow> int \<times> int" where
  "rgn_key r = (- sint (cost r), - sint (varno r))"

text \<open>
  What the theorems on register numbers assume of the parameters: the sixteen general
  registers AX to R15 are consecutive and hold SP and BP, the sixteen registers X0 to
  X15 are consecutive and apart from them, and every register number is positive and
  fits a short. \<open>bitno_ok\<close>: \<open>bitno\<close> returns the position of a bit that is set.
\<close>

definition regs_ok :: "target \<Rightarrow> bool" where
  "regs_ok tg \<longleftrightarrow>
     0 < REG_AX tg \<and> REG_R15 tg = REG_AX tg + 15 \<and> REG_R15 tg < 2 ^ 15
     \<and> REG_AX tg \<le> REG_SP tg \<and> REG_SP tg \<le> REG_R15 tg
     \<and> REG_AX tg \<le> REG_BP tg \<and> REG_BP tg \<le> REG_R15 tg
     \<and> 0 < REG_X0 tg \<and> REG_X15 tg = REG_X0 tg + 15 \<and> REG_X15 tg < 2 ^ 15
     \<and> (REG_R15 tg < REG_X0 tg \<or> REG_X15 tg < REG_AX tg)"

definition bitno_ok :: "target \<Rightarrow> bool" where
  "bitno_ok tg \<longleftrightarrow> (\<forall>b. b \<noteq> 0 \<longrightarrow> 0 \<le> bitno tg b \<and> bit b (nat (bitno tg b)))"

text \<open>
  The bit vectors of a node have \<open>BITS\<close> words. \<open>chains_ok\<close>: the chain of Vars of
  every node lists Vars of the table that belong to the node, as \<open>mkvar\<close> builds it.
\<close>

definition bits_ok :: "target \<Rightarrow> Bits \<Rightarrow> bool" where
  "bits_ok tg a \<longleftrightarrow> length a = BITS tg"

definition reg_ok :: "target \<Rightarrow> Reg \<Rightarrow> bool" where
  "reg_ok tg r \<longleftrightarrow>
     bits_ok tg (rset r) \<and> bits_ok tg (use1 r) \<and> bits_ok tg (use2 r)
     \<and> bits_ok tg (refbehind r) \<and> bits_ok tg (refahead r)
     \<and> bits_ok tg (calbehind r) \<and> bits_ok tg (calahead r)
     \<and> bits_ok tg (regdiff r) \<and> bits_ok tg (act r)"





text \<open>The result of a flood fill, if there is one, holds the bits \<open>rb\<close>.\<close>

definition has_regbits :: "32 word \<Rightarrow> (64 word \<times> Reg list) option \<Rightarrow> bool" where
  "has_regbits rb res =
     (case res of None \<Rightarrow> True | Some (v, g) \<Rightarrow> (ucast v :: 32 word) AND rb = rb)"

section \<open>Example inputs\<close>

text \<open>
  A state of the allocator for amd64 after \<open>regopt_init\<close> with one tracked variable,
  the 8-byte local at offset 0 of node 100 (Var 32), and a flow graph of one node over
  which Var 32 is marked (\<open>act\<close>) and where AX is in use.
\<close>

definition ex_node :: Node where
  "ex_node = \<lparr>is_ONAME = True, orig = Some 100, symname = Some ''x'', class' = PAUTO,
              addrtaken = False, opt = []\<rparr>"

definition ex_regstate :: regstate where
  "ex_regstate =
     \<lparr>var = map (\<lambda>i. \<lparr>offset = 0, node = i, width = 0, name = NAME_NONE, etype = Txxx,
                        addr = 0\<rparr>) [0..<32]
            @ [\<lparr>offset = 0, node = 100, width = 8, name = NAME_AUTO, etype = TINT64, addr = 0\<rparr>],
      nodes = (\<lambda>n. if n = 100 then ex_node\<lparr>opt := [32]\<rparr>
                     else ex_node\<lparr>orig := Some n, symname := Some ''.r''\<rparr>),
      externs = [0, 0, 0], params = [0, 0, 0], consts_b = [0, 0, 0], addrs = [0, 0, 0],
      ivar = [0, 0, 0], ovar = [0, 0, 0], regbits = 16, change = 0, debug_w = 0,
      hasdefer = False, nacl = False, framepointer_enabled = True,
      ostats_nvar = 1, ostats_naddr = 0\<rparr>"

definition ex_reg :: Reg where
  "ex_reg = \<lparr>prog = 0, p1 = None, p2 = None, p2link = None, s1 = None, s2 = None,
             active = 0, loop = 1, refset = False,
             rset = [0, 0, 0], use1 = [0, 0, 0], use2 = [0, 0, 0],
             refbehind = [0, 0, 0], refahead = [0, 0, 0],
             calbehind = [0, 0, 0], calahead = [0, 0, 0],
             regdiff = [0, 0, 0], act = [0, 0, 0], regu = 0\<rparr>"

definition ex_rgn :: Rgn where
  "ex_rgn = \<lparr>enter = 0, cost = 5, varno = 32, regno = 0\<rparr>"



definition ex_ret :: Prog where
  "ex_ret = zprog\<lparr>as := ARET\<rparr>"

text \<open>
  \<open>ex_regstate_out\<close>: Var 32 is a result parameter of the function (class
  \<^verbatim>\<open>PPARAMOUT\<close>), so \<open>mkvar\<close> has put it in \<open>params\<close> and \<open>ovar\<close>.
  \<open>ex_regstate_addr\<close>: the address of Var 32 has escaped (\<open>addr\<close> is 1, and the end
  of pass 1 has put it in \<open>addrs\<close>).
\<close>

definition ex_regstate_out :: regstate where
  "ex_regstate_out =
     ex_regstate
       \<lparr>var := (var ex_regstate)[32 := (var ex_regstate ! 32)\<lparr>name := NAME_PARAM\<rparr>],
        nodes := (\<lambda>n. if n = 100 then ex_node\<lparr>opt := [32], class' := PPARAMOUT\<rparr>
                        else ex_node\<lparr>orig := Some n, symname := Some ''.r''\<rparr>),
        params := [0x100000000, 0, 0], ovar := [0x100000000, 0, 0]\<rparr>"


text \<open>
  The globals before \<open>regopt\<close> runs on a function compiled with the frame pointer
  enabled, whose only declaration is the local \<open>x\<close> (node 100); the nodes 0 to 31
  stand for the registers. \<open>ex_load\<close> is \<^verbatim>\<open>MOVQ x+0(SP), AX\<close>.
\<close>

definition ex_state0 :: regstate where
  "ex_state0 =
     \<lparr>var = [],
      nodes = (\<lambda>n. if n = 100 then ex_node
                     else ex_node\<lparr>orig := Some n, symname := Some ''.r''\<rparr>),
      externs = [], params = [], consts_b = [], addrs = [], ivar = [], ovar = [],
      regbits = 0, change = 0, debug_w = 0, hasdefer = False, nacl = False,
      framepointer_enabled = True, ostats_nvar = 0, ostats_naddr = 0\<rparr>"

definition ex_load :: Prog where
  "ex_load =
     \<lparr>as = AMOVQ,
      from = zaddr\<lparr>type := TYPE_MEM, Addr.name := NAME_AUTO, Addr.etype := TINT64,
                   Addr.node := Some 100, Addr.width := 8\<rparr>,
      to = zaddr\<lparr>type := TYPE_REG, reg := 32\<rparr>\<rparr>"

text \<open>
  \<open>ex_pass1_state\<close>: the globals after the initialization and pass 1 over
  \<open>ex_load\<close>, which enters \<open>x\<close> as Var 32. \<open>ex_busy\<close>: a flow node of the region of
  Var 32 on which AX, CX, DX and BX are in use.
\<close>

definition ex_pass1_state :: regstate where
  "ex_pass1_state =
     regopt_addrs amd64
       (snd (projr (regopt_pass1_node amd64 (regopt_init amd64 [0..<32] ex_state0) ex_reg
                      ex_load)))"

definition ex_busy :: Reg where
  "ex_busy = ex_reg\<lparr>act := [0x100000000, 0, 0], regu := 0xF\<rparr>"

section \<open>Bit vectors\<close>

lemma btest_bit: "btest a n \<longleftrightarrow> n div 64 < length a \<and> bit (a ! (n div 64)) (n mod 64)"
  by (simp add: btest_def and_exp_eq_0_iff_not_bit)

lemma length_bor [simp]: "length (bor tg a b) = BITS tg"
  by (simp add: bor_def)

lemma length_bandnot [simp]: "length (bandnot tg a b) = BITS tg"
  by (simp add: bandnot_def)

lemma length_zbits [simp]: "length (zbits tg) = BITS tg"
  by (simp add: zbits_def)

lemma length_biset [simp]: "length (biset a n) = length a"
  by (simp add: biset_def)

lemma btest_zbits [simp]: "\<not> btest (zbits tg) n"
  by (simp add: btest_bit zbits_def)

lemma btest_bor:
  "length a = BITS tg \<Longrightarrow> length b = BITS tg \<Longrightarrow>
   btest (bor tg a b) n \<longleftrightarrow> btest a n \<or> btest b n"
  by (auto simp: btest_bit bor_def bit_or_iff)

lemma btest_bandnot:
  "length a = BITS tg \<Longrightarrow> length b = BITS tg \<Longrightarrow>
   btest (bandnot tg a b) n \<longleftrightarrow> btest a n \<and> \<not> btest b n"
  by (auto simp: btest_bit bandnot_def bit_and_iff bit_not_iff)



lemma length_foldl_biset [simp]: "length (foldl biset c l) = length c"
  by (induction l arbitrary: c) simp_all



lemma length_prop_expand_bit [simp]: "length (prop_expand_bit st z i c) = length c"
  by (simp add: prop_expand_bit_def Let_def)


lemma prop_expand_bit_zero:
  "c ! z = 0 \<Longrightarrow> prop_expand_bit st z i c = c"
  by (simp add: prop_expand_bit_def)

lemma prop_expand_word_zero:
  "c ! z = 0 \<Longrightarrow> foldl (\<lambda>c i. prop_expand_bit st z i c) c l = c"
  by (induction l) (simp_all add: prop_expand_bit_zero)

lemma prop_expand_flat:
  "prop_expand tg st c =
     foldl (\<lambda>c z. foldl (\<lambda>c i. prop_expand_bit st z i c) c [0..<64]) c [0..<BITS tg]"
proof -
  have "(\<lambda>c z. if c ! z = 0 then c else foldl (\<lambda>c i. prop_expand_bit st z i c) c [0..<64])
        = (\<lambda>c z. foldl (\<lambda>c i. prop_expand_bit st z i c) c [0..<64])"
    by (intro ext) (simp add: prop_expand_word_zero)
  then show ?thesis by (simp add: prop_expand_def)
qed




section \<open>The widening of the across-call set\<close>


lemma length_prop_expand [simp]: "length (prop_expand tg st c) = length c"
proof -
  have inner: "length (foldl (\<lambda>c i. prop_expand_bit st z i c) c l) = length c" for z c l
    by (induction l arbitrary: c) simp_all
  have "length (foldl (\<lambda>c z. foldl (\<lambda>c i. prop_expand_bit st z i c) c [0..<64]) c l) = length c" for l
    by (induction l arbitrary: c) (simp_all add: inner)
  then show ?thesis by (simp add: prop_expand_flat)
qed






section \<open>prop at a call (C1)\<close>







section \<open>prop at a return (C2)\<close>

text \<open>
  C2 (as stated, refuted): at \<^verbatim>\<open>RET\<close> the across-call set is claimed to be reset to
  empty. In \<open>ex_regstate_out\<close> Var 32 is a result parameter (it is in \<open>ovar\<close>); with
  empty sets arriving at the \<^verbatim>\<open>RET\<close>, Var 32 is in \<open>cal\<close> after the switch and in
  \<open>calbehind\<close> of the node: the code sets \<open>cal\<close> to \<open>externs \<union> ovar\<close>.
\<close>

theorem prop_ret_keeps_results_counterexample:
  "as ex_ret = ARET
   \<and> btest (snd (prop_switch amd64 ex_regstate_out ex_ret [0, 0, 0] [0, 0, 0] [0, 0, 0])) 32
   \<and> btest (calbehind (fst (prop_node amd64 ex_regstate_out ex_ret ex_reg [0, 0, 0] [0, 0, 0]))) 32"
  by code_simp


text \<open>
  C2 (amended): for a flow node whose instruction is \<^verbatim>\<open>RET\<close>, \<open>prop\<close> resets the
  ordinary liveness set to empty and sets the across-call set to the extern variables
  and the result parameters (\<open>externs \<union> ovar\<close>); then, at every node, with \<open>ref1\<close>
  and \<open>cal1\<close> the sets after the switch, it applies the transfer
  \<open>ref = (ref1 - set) \<union> use1 \<union> use2\<close> and \<open>cal = cal1 - (set \<union> use1 \<union> use2)\<close>,
  stores them in \<open>refbehind\<close> and \<open>calbehind\<close>, and hands them to the predecessor.
\<close>

theorem prop_ret_resets_then_transfer:
  assumes "reg_ok tg r1" and "bits_ok tg ref0" and "bits_ok tg cal0"
      and "bits_ok tg (externs st)" and "bits_ok tg (ovar st)"
      and "prop_node tg st p r1 ref0 cal0 = (r1', ref', cal', k)"
      and "prop_switch tg st p (act r1) (bor tg ref0 (refahead r1)) (bor tg cal0 (calahead r1))
             = (ref1, cal1)"
  shows "(as p = ARET \<longrightarrow>
            (\<forall>n. \<not> btest ref1 n)
            \<and> (\<forall>n. btest cal1 n \<longleftrightarrow> btest (externs st) n \<or> btest (ovar st) n))
       \<and> (\<forall>n. btest (refbehind r1') n \<longleftrightarrow>
                 (btest ref1 n \<and> \<not> btest (rset r1) n) \<or> btest (use1 r1) n \<or> btest (use2 r1) n)
       \<and> (\<forall>n. btest (calbehind r1') n \<longleftrightarrow>
                 btest cal1 n \<and> \<not> (btest (rset r1) n \<or> btest (use1 r1) n \<or> btest (use2 r1) n))
       \<and> ref' = refbehind r1' \<and> cal' = calbehind r1'"
proof -
  have l1: "length ref1 = BITS tg" "length cal1 = BITS tg"
    using assms(7) by (auto simp: prop_switch_def split: if_splits)
  have ls: "length (rset r1) = BITS tg" "length (use1 r1) = BITS tg" "length (use2 r1) = BITS tg"
    using assms(1) by (simp_all add: reg_ok_def bits_ok_def)
  have rb: "refbehind r1' = bor tg (bor tg (bandnot tg ref1 (rset r1)) (use1 r1)) (use2 r1)"
    and cb: "calbehind r1' = bandnot tg cal1 (bor tg (bor tg (rset r1) (use1 r1)) (use2 r1))"
    and eqs: "ref' = refbehind r1'" "cal' = calbehind r1'"
    using assms(6,7) by (auto simp: prop_node_def Let_def)
  have ret: "(\<forall>n. \<not> btest ref1 n)
            \<and> (\<forall>n. btest cal1 n \<longleftrightarrow> btest (externs st) n \<or> btest (ovar st) n)" if "as p = ARET"
    using that assms(4,5,7) by (auto simp: prop_switch_def bits_ok_def btest_bor)
  have t1: "btest (refbehind r1') n \<longleftrightarrow>
                 (btest ref1 n \<and> \<not> btest (rset r1) n) \<or> btest (use1 r1) n \<or> btest (use2 r1) n" for n
    by (simp add: rb btest_bor btest_bandnot l1 ls)
  have t2: "btest (calbehind r1') n \<longleftrightarrow>
                 btest cal1 n \<and> \<not> (btest (rset r1) n \<or> btest (use1 r1) n \<or> btest (use2 r1) n)" for n
    by (simp add: cb btest_bor btest_bandnot l1 ls)
  show ?thesis using ret t1 t2 eqs by blast
qed

lemma ex_ret_node:
  "prop_node amd64 ex_regstate_out ex_ret ex_reg [0, 0, 0] [0, 0, 0]
     = (ex_reg\<lparr>calbehind := [0x100000000, 0, 0]\<rparr>, [0, 0, 0], [0x100000000, 0, 0], 0)"
  by code_simp

lemma ex_ret_switch:
  "prop_switch amd64 ex_regstate_out ex_ret (act ex_reg) (bor amd64 [0, 0, 0] (refahead ex_reg))
     (bor amd64 [0, 0, 0] (calahead ex_reg)) = ([0, 0, 0], [0x100000000, 0, 0])"
  by code_simp

theorem prop_ret_resets_then_transfer_witness:
  "reg_ok amd64 ex_reg \<and> bits_ok amd64 [0, 0, 0]
   \<and> bits_ok amd64 (externs ex_regstate_out) \<and> bits_ok amd64 (ovar ex_regstate_out)
   \<and> as ex_ret = ARET
   \<and> prop_node amd64 ex_regstate_out ex_ret ex_reg [0, 0, 0] [0, 0, 0]
       = (ex_reg\<lparr>calbehind := [0x100000000, 0, 0]\<rparr>, [0, 0, 0], [0x100000000, 0, 0], 0)
   \<and> (\<forall>n. btest [0x100000000, 0, 0] n \<longleftrightarrow>
            btest (externs ex_regstate_out) n \<or> btest (ovar ex_regstate_out) n)
   \<and> (\<forall>n. \<not> btest (refbehind (ex_reg\<lparr>calbehind := [0x100000000, 0, 0]\<rparr>)) n)"
proof -
  have h1: "reg_ok amd64 ex_reg" by (simp add: reg_ok_def bits_ok_def ex_reg_def amd64_def)
  have h2: "bits_ok amd64 [0, 0, 0]" by (simp add: bits_ok_def amd64_def)
  have h4: "bits_ok amd64 (externs ex_regstate_out)" and h5: "bits_ok amd64 (ovar ex_regstate_out)"
    by (simp_all add: bits_ok_def amd64_def ex_regstate_out_def ex_regstate_def)
  have r: "as ex_ret = ARET" by (simp add: ex_ret_def)
  have z: "\<not> btest (use1 ex_reg) n" "\<not> btest (use2 ex_reg) n" for n
    by (simp_all add: ex_reg_def btest_bit nth_Cons split: nat.splits)
  note nd = ex_ret_node
  from prop_ret_resets_then_transfer [OF h1 h2 h2 h4 h5 ex_ret_node ex_ret_switch] r
  have c1: "\<forall>n. btest [0x100000000, 0, 0] n \<longleftrightarrow>
            btest (externs ex_regstate_out) n \<or> btest (ovar ex_regstate_out) n"
    and c2: "\<forall>n. btest (refbehind (ex_reg\<lparr>calbehind := [0x100000000, 0, 0]\<rparr>)) n \<longleftrightarrow>
                 (btest [0, 0, 0] n \<and> \<not> btest (rset ex_reg) n) \<or> btest (use1 ex_reg) n
                 \<or> btest (use2 ex_reg) n"
    by blast+
  have z0: "\<not> btest [0, 0, 0] n" for n
    by (simp add: btest_bit nth_Cons split: nat.splits)
  have c3: "\<forall>n. \<not> btest (refbehind (ex_reg\<lparr>calbehind := [0x100000000, 0, 0]\<rparr>)) n"
    using c2 z z0 by blast
  show ?thesis by (intro conjI; fact)
qed

section \<open>Properties of the region comparator\<close>

lemma rcmp_le_key: "rcmp ra rb \<le> 0 \<longleftrightarrow> rgn_key ra \<le> rgn_key rb"
  by (auto simp: rcmp_def rgn_key_def Let_def less_eq_prod_def)

lemma rgn_key_eq: "rgn_key ra = rgn_key rb \<longleftrightarrow> cost ra = cost rb \<and> varno ra = varno rb"
  by (auto simp: rgn_key_def dest: signed_word_eqI)

lemma qsorted_keys:
  assumes "qsorted rs xs" and "qsorted rs ys"
  shows "map rgn_key xs = map rgn_key ys"
proof -
  have sx: "sorted (map rgn_key xs)" and sy: "sorted (map rgn_key ys)"
    using assms by (simp_all add: qsorted_def sorted_map rcmp_le_key)
  have "mset (map rgn_key ys) = mset (map rgn_key xs)"
    using assms by (simp add: qsorted_def)
  then have "sort (map rgn_key xs) = map rgn_key ys"
    using sy by (rule properties_for_sort)
  moreover have "sort (map rgn_key xs) = map rgn_key xs"
    using sx by (simp add: sorted_sort_id)
  ultimately show ?thesis by simp
qed

text \<open>
  C3 (as stated, refuted): among regions of equal cost the comparator is claimed to
  place the region with the lower variable index first, and the order of the regions
  is claimed to be fixed by it. For two regions of cost 5 with variable indices 1 and
  2, \<open>rcmp\<close> is positive on (index 1, index 2): qsort places the region of index 2
  first. And on two different regions of one variable with the same cost (cost 10,
  index 32, entered at nodes 0 and 2) \<open>rcmp\<close> is 0 both ways, so both arrangements
  of the two are sorted.
\<close>

theorem rcmp_tie_lower_first_counterexample:
  "cost \<lparr>enter = 0, cost = 5, varno = 1, regno = 0\<rparr>
     = cost \<lparr>enter = 0, cost = 5, varno = 2, regno = 0\<rparr>
   \<and> sint (varno \<lparr>enter = 0, cost = 5, varno = 1, regno = 0\<rparr>)
     < sint (varno \<lparr>enter = 0, cost = 5, varno = 2, regno = 0\<rparr>)
   \<and> 0 < rcmp \<lparr>enter = 0, cost = 5, varno = 1, regno = 0\<rparr>
              \<lparr>enter = 0, cost = 5, varno = 2, regno = 0\<rparr>
   \<and> rcmp \<lparr>enter = 0, cost = 10, varno = 32, regno = 0\<rparr>
          \<lparr>enter = 2, cost = 10, varno = 32, regno = 0\<rparr> = 0
   \<and> rcmp \<lparr>enter = 2, cost = 10, varno = 32, regno = 0\<rparr>
          \<lparr>enter = 0, cost = 10, varno = 32, regno = 0\<rparr> = 0
   \<and> qsorted [\<lparr>enter = 0, cost = 10, varno = 32, regno = 0\<rparr>,
               \<lparr>enter = 2, cost = 10, varno = 32, regno = 0\<rparr>]
              [\<lparr>enter = 0, cost = 10, varno = 32, regno = 0\<rparr>,
               \<lparr>enter = 2, cost = 10, varno = 32, regno = 0\<rparr>]
   \<and> qsorted [\<lparr>enter = 0, cost = 10, varno = 32, regno = 0\<rparr>,
               \<lparr>enter = 2, cost = 10, varno = 32, regno = 0\<rparr>]
              [\<lparr>enter = 2, cost = 10, varno = 32, regno = 0\<rparr>,
               \<lparr>enter = 0, cost = 10, varno = 32, regno = 0\<rparr>]
   \<and> [\<lparr>enter = 0, cost = 10, varno = 32, regno = 0\<rparr>,
       \<lparr>enter = 2, cost = 10, varno = 32, regno = (0 :: 16 word)\<rparr>]
      \<noteq> [\<lparr>enter = 2, cost = 10, varno = 32, regno = 0\<rparr>,
          \<lparr>enter = 0, cost = 10, varno = 32, regno = 0\<rparr>]"
  by (simp add: rcmp_def qsorted_def)

text \<open>
  C3 (amended): \<open>rcmp\<close> orders regions by strictly descending cost, and among
  regions of equal cost it places the region with the HIGHER variable index first:
  \<open>rcmp ra rb\<close> is negative (ra sorts before rb) exactly when ra costs more, or
  costs the same and has the greater variable index; it is positive exactly when
  \<open>rcmp rb ra\<close> is negative; and it is 0 exactly when the two regions have the same
  cost and the same variable index. So the order in which regions are committed is
  fixed up to the order of regions with the same cost and variable index: any two
  sorted arrangements of the regions show the same sequence of (cost, variable
  index), and are the same sequence of regions when no two different regions share
  both.
\<close>

theorem rcmp_descending_cost_then_higher_varno:
  "(rcmp ra rb < 0 \<longleftrightarrow>
      (sint (cost rb) < sint (cost ra)
       \<or> (cost ra = cost rb \<and> sint (varno rb) < sint (varno ra))))
   \<and> (0 < rcmp ra rb \<longleftrightarrow> rcmp rb ra < 0)
   \<and> (rcmp ra rb = 0 \<longleftrightarrow> cost ra = cost rb \<and> varno ra = varno rb)
   \<and> (qsorted rs xs \<and> qsorted rs ys \<longrightarrow>
        map (\<lambda>r. (cost r, varno r)) xs = map (\<lambda>r. (cost r, varno r)) ys)
   \<and> (qsorted rs xs \<and> qsorted rs ys
        \<and> (\<forall>a \<in> set rs. \<forall>b \<in> set rs. cost a = cost b \<and> varno a = varno b \<longrightarrow> a = b)
        \<longrightarrow> xs = ys)"
proof -
  have ne: "sint (cost ra) \<noteq> sint (cost rb)" if "cost ra \<noteq> cost rb"
    using that by (auto dest: signed_word_eqI)
  have nv: "sint (varno ra) \<noteq> sint (varno rb)" if "varno ra \<noteq> varno rb"
    using that by (auto dest: signed_word_eqI)
  have neg: "rcmp ra rb < 0 \<longleftrightarrow>
      (sint (cost rb) < sint (cost ra)
       \<or> (cost ra = cost rb \<and> sint (varno rb) < sint (varno ra)))"
    using ne by (cases "cost ra = cost rb") (auto simp: rcmp_def Let_def)
  have pos: "0 < rcmp ra rb \<longleftrightarrow> rcmp rb ra < 0"
    by (auto simp: rcmp_def Let_def)
  have iv: "sint (varno rb) = sint (varno ra) \<longleftrightarrow> varno ra = varno rb"
    by (auto dest: signed_word_eqI)
  have zero: "rcmp ra rb = 0 \<longleftrightarrow> cost ra = cost rb \<and> varno ra = varno rb"
    using ne by (cases "cost ra = cost rb") (auto simp: rcmp_def Let_def iv)
  have keys: "map (\<lambda>r. (cost r, varno r)) xs = map (\<lambda>r. (cost r, varno r)) ys"
    if q: "qsorted rs xs" "qsorted rs ys"
  proof -
    define g :: "16 word \<times> 16 word \<Rightarrow> int \<times> int" where "g = (\<lambda>(c, v). (- sint c, - sint v))"
    have "inj g" by (auto simp: g_def inj_on_def dest: signed_word_eqI)
    moreover have "rgn_key = g \<circ> (\<lambda>r. (cost r, varno r))"
      by (simp add: fun_eq_iff g_def rgn_key_def)
    then have "map g (map (\<lambda>r. (cost r, varno r)) xs) = map g (map (\<lambda>r. (cost r, varno r)) ys)"
      using qsorted_keys [OF q] by (simp only: map_map)
    ultimately show ?thesis by (simp only: inj_map_eq_map)
  qed
  have same: "xs = ys"
    if q: "qsorted rs xs" "qsorted rs ys"
    and d: "\<forall>a \<in> set rs. \<forall>b \<in> set rs. cost a = cost b \<and> varno a = varno b \<longrightarrow> a = b"
  proof -
    have sx: "set xs = set rs" and sy: "set ys = set rs"
      using q by (auto simp: qsorted_def dest: mset_eq_setD)
    have "inj_on (\<lambda>r. (cost r, varno r)) (set xs \<union> set ys)"
      using d by (auto simp: inj_on_def sx sy)
    then show ?thesis using keys [OF q] by (simp add: inj_on_map_eq_map)
  qed
  show ?thesis using neg pos zero keys same by blast
qed

theorem rcmp_descending_cost_then_higher_varno_witness:
  "rcmp \<lparr>enter = 0, cost = 5, varno = 2, regno = 0\<rparr>
        \<lparr>enter = 0, cost = 5, varno = 1, regno = 0\<rparr> < 0
   \<and> 0 < rcmp \<lparr>enter = 0, cost = 5, varno = 1, regno = 0\<rparr>
              \<lparr>enter = 0, cost = 7, varno = 1, regno = 0\<rparr>
   \<and> qsorted [\<lparr>enter = 0, cost = 5, varno = 1, regno = 0\<rparr>,
               \<lparr>enter = 1, cost = 5, varno = 2, regno = 0\<rparr>,
               \<lparr>enter = 0, cost = 7, varno = 1, regno = 0\<rparr>]
              [\<lparr>enter = 0, cost = 7, varno = 1, regno = 0\<rparr>,
               \<lparr>enter = 1, cost = 5, varno = 2, regno = 0\<rparr>,
               \<lparr>enter = 0, cost = 5, varno = 1, regno = 0\<rparr>]
   \<and> distinct (map (\<lambda>r. (cost r, varno r))
                 [\<lparr>enter = 0, cost = 5, varno = 1, regno = 0\<rparr>,
                  \<lparr>enter = 1, cost = 5, varno = 2, regno = 0\<rparr>,
                  \<lparr>enter = 0, cost = 7, varno = 1, regno = (0 :: 16 word)\<rparr>])"
proof -
  let ?a = "\<lparr>enter = 0, cost = 5, varno = 1, regno = (0 :: 16 word)\<rparr>"
  let ?b = "\<lparr>enter = 1, cost = 5, varno = 2, regno = (0 :: 16 word)\<rparr>"
  let ?c = "\<lparr>enter = 0, cost = 7, varno = 1, regno = (0 :: 16 word)\<rparr>"
  have q: "qsorted [?a, ?b, ?c] [?c, ?b, ?a]"
    by (simp add: qsorted_def rcmp_def)
  have d: "\<forall>a \<in> set [?a, ?b, ?c]. \<forall>b \<in> set [?a, ?b, ?c].
             cost a = cost b \<and> varno a = varno b \<longrightarrow> a = b"
    by simp
  note T = rcmp_descending_cost_then_higher_varno
             [of "\<lparr>enter = 0, cost = 5, varno = 2, regno = 0\<rparr>" ?a "[?a, ?b, ?c]"
                 "[?c, ?b, ?a]" "[?c, ?b, ?a]"]
  from T have "rcmp \<lparr>enter = 0, cost = 5, varno = 2, regno = 0\<rparr> ?a < 0 \<longleftrightarrow>
      (sint (cost ?a) < sint (cost \<lparr>enter = 0, cost = 5, varno = 2, regno = (0 :: 16 word)\<rparr>)
       \<or> (cost \<lparr>enter = 0, cost = 5, varno = 2, regno = (0 :: 16 word)\<rparr> = cost ?a
           \<and> sint (varno ?a) < sint (varno \<lparr>enter = 0, cost = 5, varno = 2, regno = (0 :: 16 word)\<rparr>)))"
    by (rule conjunct1)
  then have n1: "rcmp \<lparr>enter = 0, cost = 5, varno = 2, regno = 0\<rparr> ?a < 0"
    by simp
  from T q d have same: "[?c, ?b, ?a] = [?c, ?b, ?a]"
    by blast
  have n2: "0 < rcmp ?a ?c"
    by (simp add: rcmp_def)
  have dd: "distinct (map (\<lambda>r. (cost r, varno r)) [?a, ?b, ?c])" by simp
  show ?thesis by (intro conjI; fact)
qed

section \<open>The allocator keeps clear of the stack pointer and the frame pointer\<close>

lemma ucast_scast_32_64: "(ucast (scast (w :: 32 word) :: 64 word) :: 32 word) = w"
  by (rule bit_word_eqI) (auto simp: bit_simps)

lemma ucast_or_64_32: "(ucast ((a :: 64 word) OR b) :: 32 word) = ucast a OR ucast b"
  by (rule bit_word_eqI) (auto simp: bit_simps)

lemma ucast_ucast_32_64: "(ucast (ucast (w :: 32 word) :: 64 word) :: 32 word) = w"
  by (rule bit_word_eqI) (auto simp: bit_simps)

lemma or_and_keep: "(a :: 32 word) AND rb = rb \<Longrightarrow> (a OR b) AND rb = rb"
  by (metis bit.conj_disj_distrib2 word_ao_absorbs(2))

lemma has_regbits_simps [simp]:
  "has_regbits rb None"
  "has_regbits rb (Some (v, g)) = ((ucast v :: 32 word) AND rb = rb)"
  by (simp_all add: has_regbits_def)

lemma has_regbitsD:
  "has_regbits rb x \<Longrightarrow> x = Some (v, g) \<Longrightarrow> (ucast v :: 32 word) AND rb = rb"
  by simp

lemma has_regbits_or:
  "(ucast vreg :: 32 word) AND rb = rb \<Longrightarrow>
   has_regbits rb (case x of None \<Rightarrow> None | Some (v, g3) \<Rightarrow> Some (vreg OR w v, g3))"
  by (cases x) (auto simp: ucast_or_64_32 or_and_keep)

lemma has_regbits_case:
  "has_regbits rb x \<Longrightarrow> (\<And>v g. x = Some (v, g) \<Longrightarrow> (ucast v :: 32 word) AND rb = rb \<Longrightarrow> has_regbits rb (f v g))
   \<Longrightarrow> has_regbits rb (case x of None \<Rightarrow> None | Some (v, g) \<Rightarrow> f v g)"
  by (cases x) auto

lemma paint2_keeps_regbits_aux:
  "(\<forall>g r bn v g'. paint2 k rb g r bn = Some (v, g') \<longrightarrow> v AND rb = rb)
   \<and> (\<forall>g r bn vreg. (ucast vreg :: 32 word) AND rb = rb \<longrightarrow> has_regbits rb (paint2_fwd k rb g r bn vreg))
   \<and> (\<forall>g ro bn vreg. (ucast vreg :: 32 word) AND rb = rb \<longrightarrow> has_regbits rb (paint2_p2 k rb g ro bn vreg))"
proof (induction k)
  case 0
  show ?case by simp
next
  case (Suc k)
  have ih1: "\<And>g r bn v g'. paint2 k rb g r bn = Some (v, g') \<Longrightarrow> v AND rb = rb"
    using Suc by blast
  have ih2: "\<And>g r bn vreg. (ucast vreg :: 32 word) AND rb = rb \<Longrightarrow> has_regbits rb (paint2_fwd k rb g r bn vreg)"
    using Suc by blast
  have ih3: "\<And>g ro bn vreg. (ucast vreg :: 32 word) AND rb = rb \<Longrightarrow> has_regbits rb (paint2_p2 k rb g ro bn vreg)"
    using Suc by blast
  have rec: "\<And>g r bn vreg. (ucast vreg :: 32 word) AND rb = rb \<Longrightarrow>
     has_regbits rb (case paint2 k rb g r bn of None \<Rightarrow> None | Some (v, g3) \<Rightarrow> Some (vreg OR ucast v, g3))"
    by (rule has_regbits_or)
  have a: "v AND rb = rb" if eq: "paint2 (Suc k) rb g r bn = Some (v, g')" for g r bn v g'
  proof -
    have "has_regbits rb (paint2_fwd k rb g r0 bn (scast rb))" for r0
      by (rule ih2) (simp add: ucast_scast_32_64)
    then have "\<And>r0 a g'. paint2_fwd k rb g r0 bn (scast rb) = Some (a, g') \<Longrightarrow> (ucast a :: 32 word) AND rb = rb"
      by (rule has_regbitsD)
    then show ?thesis using eq
      by (auto simp: ucast_scast_32_64 split: option.splits if_splits)
  qed
  have b: "has_regbits rb (paint2_fwd (Suc k) rb g r bn vreg)"
    if inv: "(ucast vreg :: 32 word) AND rb = rb" for g r bn vreg
  proof -
    define g1 where "g1 = g[r := (g ! r)\<lparr>act := biclr (act (g ! r)) bn\<rparr>]"
    define vreg1 where "vreg1 = vreg OR scast (regu (g1 ! r))"
    have inv1: "(ucast vreg1 :: 32 word) AND rb = rb"
      using inv by (simp add: vreg1_def ucast_or_64_32 or_and_keep)
    have s1: "has_regbits rb (if btest (refbehind (g1 ! r)) bn
               then paint2_p2 k rb g1 (p2 (g1 ! r)) bn vreg1
               else Some (vreg1, g1))"
      using inv1 ih3 by simp
    show ?thesis
      unfolding paint2_fwd.simps Let_def g1_def [symmetric] vreg1_def [symmetric]
    proof (rule has_regbits_case [OF s1])
      fix vreg2 g2
      assume inv2: "(ucast (vreg2 :: 64 word) :: 32 word) AND rb = rb"
      have s2: "has_regbits rb (case s2 (g2 ! r) of
                        None \<Rightarrow> Some (vreg2, g2)
                      | Some r1 \<Rightarrow>
                          if r1 \<ge> length g2 then None
                          else if btest (refbehind (g2 ! r1)) bn
                          then (case paint2 k rb g2 r1 bn of
                                  None \<Rightarrow> None
                                | Some (v, g3) \<Rightarrow> Some (vreg2 OR ucast v, g3))
                          else Some (vreg2, g2))"
        using inv2 rec [OF inv2] by (simp split: option.splits)
      have s3: "has_regbits rb (case s1 (g3 ! r) of
                       None \<Rightarrow> Some (vreg3, g3)
                     | Some rn \<Rightarrow>
                         if rn \<ge> length g3 then None
                         else if \<not> btest (act (g3 ! rn)) bn then Some (vreg3, g3)
                         else if \<not> btest (refbehind (g3 ! rn)) bn then Some (vreg3, g3)
                         else paint2_fwd k rb g3 rn bn vreg3)"
        if "(ucast (vreg3 :: 64 word) :: 32 word) AND rb = rb" for vreg3 g3
        using that ih2 by (simp split: option.splits)
      show "has_regbits rb (if \<not> btest (refahead (g2 ! r)) bn then Some (vreg2, g2)
             else
               (case (case s2 (g2 ! r) of
                        None \<Rightarrow> Some (vreg2, g2)
                      | Some r1 \<Rightarrow>
                          if r1 \<ge> length g2 then None
                          else if btest (refbehind (g2 ! r1)) bn
                          then (case paint2 k rb g2 r1 bn of
                                  None \<Rightarrow> None
                                | Some (v, g3) \<Rightarrow> Some (vreg2 OR ucast v, g3))
                          else Some (vreg2, g2)) of
                  None \<Rightarrow> None
                | Some (vreg3, g3) \<Rightarrow>
                    (case s1 (g3 ! r) of
                       None \<Rightarrow> Some (vreg3, g3)
                     | Some rn \<Rightarrow>
                         if rn \<ge> length g3 then None
                         else if \<not> btest (act (g3 ! rn)) bn then Some (vreg3, g3)
                         else if \<not> btest (refbehind (g3 ! rn)) bn then Some (vreg3, g3)
                         else paint2_fwd k rb g3 rn bn vreg3)))"
        using inv2 has_regbits_case [OF s2, where f = "\<lambda>vreg3 g3. (case s1 (g3 ! r) of
                       None \<Rightarrow> Some (vreg3, g3)
                     | Some rn \<Rightarrow>
                         if rn \<ge> length g3 then None
                         else if \<not> btest (act (g3 ! rn)) bn then Some (vreg3, g3)
                         else if \<not> btest (refbehind (g3 ! rn)) bn then Some (vreg3, g3)
                         else paint2_fwd k rb g3 rn bn vreg3)"] s3
        by simp
    qed
  qed
  have c: "has_regbits rb (paint2_p2 (Suc k) rb g ro bn vreg)"
    if inv: "(ucast vreg :: 32 word) AND rb = rb" for g ro bn vreg
  proof (cases ro)
    case None
    then show ?thesis using inv by simp
  next
    case (Some r1)
    have s: "has_regbits rb (if btest (refahead (g ! r1)) bn
                   then (case paint2 k rb g r1 bn of
                           None \<Rightarrow> None
                         | Some (v, g') \<Rightarrow> Some (vreg OR ucast v, g'))
                   else Some (vreg, g))"
      using inv rec [OF inv] by simp
    show ?thesis
      using Some has_regbits_case [OF s, where f = "\<lambda>vreg' g'. paint2_p2 k rb g' (p2link (g' ! r1)) bn vreg'"] ih3
      by simp
  qed
  show ?case using a b c by blast
qed



lemma BtoR_cases:
  assumes ok: "bitno_ok tg" and pos: "0 < REG_AX tg" and nz: "BtoR tg st b \<noteq> 0"
  obtains n where "BtoR tg st b = int n + REG_AX tg" "n < 16" "bit b n"
    "nacl st \<Longrightarrow> n \<noteq> nat (REG_BP tg - REG_AX tg) \<and> n \<noteq> nat (REG_R15 tg - REG_AX tg)"
    "framepointer_enabled st \<Longrightarrow> n \<noteq> nat (REG_BP tg - REG_AX tg)"
proof -
  define b' where "b' = (let b = b AND 0xffff in
          (if nacl st
               then b AND NOT (push_bit (nat (REG_BP tg - REG_AX tg)) 1
                               OR push_bit (nat (REG_R15 tg - REG_AX tg)) 1)
               else if framepointer_enabled st
               then b AND NOT (push_bit (nat (REG_BP tg - REG_AX tg)) 1)
               else b))"
  have eq: "BtoR tg st b = (if b' = 0 then 0 else bitno tg b' + REG_AX tg)"
    by (simp add: BtoR_def b'_def Let_def)
  with nz have b'nz: "b' \<noteq> 0" by auto
  define n where "n = nat (bitno tg b')"
  from ok b'nz have ge: "0 \<le> bitno tg b'" and bt: "bit b' n"
    by (auto simp: bitno_ok_def n_def)
  have r: "BtoR tg st b = int n + REG_AX tg" using eq b'nz ge by (simp add: n_def)
  have b16: "bit (b AND 0xffff) n" using bt by (auto simp: b'_def Let_def bit_simps split: if_splits)
  then have lt: "n < 16" and bb: "bit b n"
    by (auto simp: bit_and_iff bit_mask_iff[where 'a="32 word" and m=16, simplified mask_eq_exp_minus_1, simplified] )
  have pb: "bit (push_bit n (1 :: 32 word)) n"
    using lt by (simp add: bit_simps)
  have na: "n \<noteq> nat (REG_BP tg - REG_AX tg) \<and> n \<noteq> nat (REG_R15 tg - REG_AX tg)" if "nacl st"
    using bt that pb by (auto simp: b'_def Let_def bit_and_iff bit_not_iff bit_or_iff)
  have fp: "n \<noteq> nat (REG_BP tg - REG_AX tg)" if "framepointer_enabled st"
    using bt that pb by (cases "nacl st") (auto simp: b'_def Let_def bit_and_iff bit_not_iff bit_or_iff)
  show ?thesis using that [OF r lt bb na fp] by blast
qed

lemma hi16: "bit (0xFFFF0000 :: 32 word) n \<Longrightarrow> 16 \<le> n"
proof (rule ccontr)
  assume b: "bit (0xFFFF0000 :: 32 word) n" and "\<not> 16 \<le> n"
  then have lt: "n < 16" by simp
  have e: "bit (take_bit 16 (0xFFFF0000 :: 32 word)) n \<longleftrightarrow> n < 16 \<and> bit (0xFFFF0000 :: 32 word) n"
    by (rule bit_take_bit_iff)
  have z: "take_bit 16 (0xFFFF0000 :: 32 word) = 0" by simp
  have "bit (0 :: 32 word) n" using e b lt unfolding z by blast
  then show False by simp
qed

lemma BtoF_cases:
  assumes ok: "bitno_ok tg" and nz: "BtoF tg b \<noteq> 0"
  obtains n where "BtoF tg b = int n - 16 + REG_X0 tg" "16 \<le> n" "n < 32" "bit b n"
proof -
  define b' where "b' = b AND 0xFFFF0000"
  have eq: "BtoF tg b = (if b' = 0 then 0 else bitno tg b' - 16 + REG_X0 tg)"
    by (simp add: BtoF_def b'_def Let_def)
  with nz have b'nz: "b' \<noteq> 0" by auto
  define n where "n = nat (bitno tg b')"
  from ok b'nz have ge: "0 \<le> bitno tg b'" and bt: "bit b' n"
    by (auto simp: bitno_ok_def n_def)
  have r: "BtoF tg b = int n - 16 + REG_X0 tg" using eq b'nz ge by (simp add: n_def)
  have lt: "n < 32" using bt by (auto dest: bit_imp_le_length)
  have hi: "bit (0xFFFF0000 :: 32 word) n" and bb: "bit b n"
    using bt by (auto simp: b'_def bit_and_iff)
  have ge16: "16 \<le> n" using hi by (rule hi16)
  show ?thesis using that [OF r ge16 lt bb] .
qed

lemma RtoB_SP_bit:
  assumes "regs_ok tg"
  shows "RtoB tg (REG_SP tg) = push_bit (nat (REG_SP tg - REG_AX tg)) 1"
    and "nat (REG_SP tg - REG_AX tg) < 16"
  using assms by (auto simp: RtoB_def regs_ok_def)

lemma sint_regno: "- (2 ^ 15) \<le> i \<Longrightarrow> i < 2 ^ 15 \<Longrightarrow> sint (word_of_int i :: 16 word) = i"
  by (simp add: sint_sbintrunc' signed_take_bit_int_eq_self)

lemma allreg_choice:
  assumes regs: "regs_ok tg" and bok: "bitno_ok tg"
      and sp: "b AND RtoB tg (REG_SP tg) = RtoB tg (REG_SP tg)"
      and res: "allreg tg st b rgn = Inr (vreg, rgn')"
      and nz: "regno rgn' \<noteq> 0"
  shows "sint (regno rgn') \<noteq> REG_SP tg
       \<and> (framepointer_enabled st \<or> nacl st \<longrightarrow> sint (regno rgn') \<noteq> REG_BP tg)
       \<and> (nacl st \<longrightarrow> sint (regno rgn') \<noteq> REG_R15 tg)"
proof -
  have spb: "bit b (nat (REG_SP tg - REG_AX tg))"
  proof -
    have "bit (RtoB tg (REG_SP tg)) (nat (REG_SP tg - REG_AX tg))"
      using RtoB_SP_bit [OF regs] by (simp add: bit_simps)
    then show ?thesis using sp by (metis bit_and_iff)
  qed
  consider (int) i where "i = BtoR tg st (NOT b)" "i \<noteq> 0" "regno rgn' = word_of_int i"
    | (flt) i where "i = BtoF tg (NOT b)" "i \<noteq> 0" "regno rgn' = word_of_int i"
    using res nz by (auto simp: allreg_def Let_def split: if_splits)
  then show ?thesis
  proof cases
    case int
    from regs have pos: "0 < REG_AX tg" by (simp add: regs_ok_def)
    from int obtain n where n: "i = int n + REG_AX tg" "n < 16" "bit (NOT b) n"
      "nacl st \<Longrightarrow> n \<noteq> nat (REG_BP tg - REG_AX tg) \<and> n \<noteq> nat (REG_R15 tg - REG_AX tg)"
      "framepointer_enabled st \<Longrightarrow> n \<noteq> nat (REG_BP tg - REG_AX tg)"
      using BtoR_cases [OF bok pos, of st "NOT b"] by metis
    have nsp: "n \<noteq> nat (REG_SP tg - REG_AX tg)" using n(3) spb by (auto simp: bit_not_iff)
    have "- (2 ^ 15) \<le> i" "i < 2 ^ 15" using n(1,2) regs by (auto simp: regs_ok_def)
    then have s: "sint (regno rgn') = i"
      unfolding int(3) by (rule sint_regno)
    show ?thesis using s n nsp regs by (auto simp: regs_ok_def)
  next
    case flt
    from flt obtain n where n: "i = int n - 16 + REG_X0 tg" "16 \<le> n" "n < 32"
      using BtoF_cases [OF bok, of "NOT b"] by metis
    have "- (2 ^ 15) \<le> i" "i < 2 ^ 15" using n regs by (auto simp: regs_ok_def)
    then have s: "sint (regno rgn') = i"
      unfolding flt(3) by (rule sint_regno)
    show ?thesis using s n regs by (auto simp: regs_ok_def)
  qed
qed


lemma paint2_keeps_regbits:
  "paint2 k rb g r bn = Some (v, g') \<Longrightarrow> v AND rb = rb"
  using paint2_keeps_regbits_aux [of k rb] by blast

lemma bitno32_ok: "b \<noteq> 0 \<Longrightarrow> 0 \<le> bitno32 b \<and> bit b (nat (bitno32 b))"
proof -
  assume "b \<noteq> 0"
  then obtain n where n: "bit b n" by (auto simp: bit_eq_iff)
  then have "n < 32" by (auto dest: bit_imp_le_length)
  with n have "\<exists>i\<in>set [0..<32]. bit b i" by auto
  then obtain i where "find (\<lambda>i. bit b i) [0..<32] = Some i"
    by (cases "find (\<lambda>i. bit b i) [0..<32]") (auto simp: find_None_iff)
  moreover from this have "bit b i" by (auto simp: find_Some_iff)
  ultimately show ?thesis by (simp add: bitno32_def)
qed

lemma mkvar_cap_regbits [simp]: "regbits (mkvar_cap st nd) = regbits st"
  by (simp add: mkvar_cap_def)

lemma mkvar_new_regbits [simp]:
  "regbits (snd (mkvar_new tg st nd n o' et w flag)) = regbits st"
  by (simp add: mkvar_new_def Let_def)

lemma mkvar_mem_regbits: "mkvar_mem tg st a = Inr (b, st') \<Longrightarrow> regbits st' = regbits st"
  unfolding mkvar_mem_def ebind_def
  by (auto split: if_splits sum.splits option.splits prod.splits
           dest: arg_cong [where f = "\<lambda>x. regbits (snd x)"])

lemma mkvar_regbits: "mkvar tg st r a = Inr (b, st', r') \<Longrightarrow> regbits st' = regbits st"
  unfolding mkvar_def Let_def
  by (auto dest: mkvar_mem_regbits split: if_splits sum.splits prod.splits)

lemma regopt_pass1_node_regbits:
  assumes "regopt_pass1_node tg st r p = Inr (r', st')"
  shows "regbits st' = regbits st"
proof (cases "as p = AVARDEF \<or> as p = AVARKILL
              \<or> (as p = ACALL \<and> type (to p) = TYPE_MEM \<and> Addr.name (to p) = NAME_EXTERN)")
  case True
  with assms show ?thesis by (auto simp: regopt_pass1_node_def Let_def split: if_splits)
next
  case False
  then have n1: "\<not> (as p = AVARDEF \<or> as p = AVARKILL)"
    and n2: "\<not> (as p = ACALL \<and> type (to p) = TYPE_MEM \<and> Addr.name (to p) = NAME_EXTERN)"
    by blast+
  from assms obtain ra b1 st1 ro1 vs1 rb b2 st2 ro2 vs2 where
    m1: "mkvar tg st (Some ra) (from p) = Inr (b1, st1, ro1)"
    and m2: "mkvar tg (st1\<lparr>var := vs1\<rparr>) (Some rb) (to p) = Inr (b2, st2, ro2)"
    and e: "st' = st2\<lparr>var := vs2\<rparr>"
    unfolding regopt_pass1_node_def Let_def if_not_P [OF n1] if_not_P [OF n2]
    by (simp split: sum.splits prod.splits) blast
  from mkvar_regbits [OF m1] mkvar_regbits [OF m2] e show ?thesis by simp
qed

lemma regopt_addrs_regbits: "regbits (regopt_addrs tg st) = regbits st"
  by (simp add: regopt_addrs_def)

lemma prop_walk_regbits:
  "prop_walk k tg st ch g r ref cal = Some (st', g', r1) \<Longrightarrow> regbits st' = regbits st"
proof (induction k tg st ch g r ref cal rule: prop_walk.induct)
  case (3 k tg st ch g i ref cal)
  then show ?case
    by (auto simp: Let_def split: if_splits prod.splits)
qed simp_all

lemma prop_regbits_aux:
  "(\<forall>st g r ref cal st' g'. prop' k tg st ch g r ref cal = Some (st', g') \<longrightarrow> regbits st' = regbits st)
 \<and> (\<forall>st g r r1 st' g'. prop_back k tg st ch g r r1 = Some (st', g') \<longrightarrow> regbits st' = regbits st)
 \<and> (\<forall>st g r2 i st' g'. prop_p2 k tg st ch g r2 i = Some (st', g') \<longrightarrow> regbits st' = regbits st)"
proof (induction k)
  case 0
  show ?case by simp
next
  case (Suc k)
  have a: "regbits st' = regbits st" if "prop' (Suc k) tg st ch g r ref cal = Some (st', g')"
    for st g r ref cal st' g'
  proof -
    from that obtain st1 g1 r1 where w: "prop_walk k tg st ch g r ref cal = Some (st1, g1, r1)"
      and b: "prop_back k tg st1 ch g1 r r1 = Some (st', g')"
      by (auto split: option.splits)
    from Suc b have "regbits st' = regbits st1" by blast
    with prop_walk_regbits [OF w] show ?thesis by simp
  qed
  have b: "regbits st' = regbits st" if "prop_back (Suc k) tg st ch g r r1 = Some (st', g')"
    for st g r r1 st' g'
  proof (cases "r = r1")
    case True
    with that show ?thesis by simp
  next
    case False
    with that obtain i st1 g1 where r: "r = Some i"
      and c: "prop_p2 k tg st ch g (p2 (g ! i)) i = Some (st1, g1)"
      and d: "prop_back k tg st1 ch g1 (p1 (g1 ! i)) r1 = Some (st', g')"
      by (auto split: option.splits)
    from Suc c have "regbits st1 = regbits st" by blast
    moreover from Suc d have "regbits st' = regbits st1" by blast
    ultimately show ?thesis by simp
  qed
  have c: "regbits st' = regbits st" if "prop_p2 (Suc k) tg st ch g r2 i = Some (st', g')"
    for st g r2 i st' g'
  proof (cases r2)
    case None
    with that show ?thesis by simp
  next
    case (Some j)
    with that obtain st1 g1 where
      c: "prop' k tg st ch g (Some j) (refbehind (g ! i)) (calbehind (g ! i)) = Some (st1, g1)"
      and d: "prop_p2 k tg st1 ch g1 (p2link (g1 ! j)) i = Some (st', g')"
      by (auto split: option.splits if_splits)
    from Suc c have "regbits st1 = regbits st" by blast
    moreover from Suc d have "regbits st' = regbits st1" by blast
    ultimately show ?thesis by simp
  qed
  from a b c show ?case by blast
qed

lemma prop_regbits:
  "prop' k tg st ch g r ref cal = Some (st', g') \<Longrightarrow> regbits st' = regbits st"
  using prop_regbits_aux [of k tg ch] by blast

lemma regopt_reaches_regbits:
  "regopt_reaches tg rn st0 st \<Longrightarrow> regbits st = RtoB tg (REG_SP tg)"
proof (induction rule: regopt_reaches.induct)
  case reach_init
  show ?case by (simp add: regopt_init_def)
next
  case (reach_pass1 st r p r' st')
  then show ?case by (simp add: regopt_pass1_node_regbits)
next
  case (reach_addrs st)
  then show ?case by (simp add: regopt_addrs_regbits)
next
  case (reach_prop st k ch g r ref cal st' g')
  then show ?case by (simp add: prop_regbits)
next
  case (reach_change st c)
  then show ?case by simp
qed

text \<open>
  C10: the allocator never assigns the stack pointer to a region, and never assigns the
  frame pointer when \<open>framepointer_enabled\<close> is set, nor BP or R15 under \<open>nacl\<close>.
  \<open>regopt\<close> initializes \<open>regbits\<close> to the bit of SP and no pass changes it, so this
  holds in every state \<open>st\<close> that the globals reach before pass 6; \<open>paint2\<close> returns a
  bitmap that holds \<open>regbits\<close>; \<open>allreg\<close> chooses among the registers outside that
  bitmap and \<open>BtoR\<close> masks the excluded ones. So for a region that pass 6 commits
  (\<open>regno\<close> is not 0), the register is not \<open>REG_SP\<close>, not \<open>REG_BP\<close> when the frame
  pointer is enabled or under nacl, and not \<open>REG_R15\<close> under nacl.
\<close>

theorem allocator_never_assigns_sp_or_frame_pointer:
  assumes "regs_ok tg" and "bitno_ok tg"
      and "regopt_reaches tg regnodes st0 st"
      and "regopt_pass6_region k tg st g rgn = Some (Inr (vreg, rgn', g'))"
      and "regno rgn' \<noteq> 0"
  shows "sint (regno rgn') \<noteq> REG_SP tg
       \<and> (framepointer_enabled st \<or> nacl st \<longrightarrow> sint (regno rgn') \<noteq> REG_BP tg)
       \<and> (nacl st \<longrightarrow> sint (regno rgn') \<noteq> REG_R15 tg)"
proof -
  from assms(4) obtain b g1 where
    p: "paint2 k (regbits st) g (enter rgn) (nat (sint (varno rgn))) = Some (b, g1)"
    and a: "allreg tg st b rgn = Inr (vreg, rgn')"
    by (auto simp: regopt_pass6_region_def split: if_splits option.splits sum.splits)
  from p have "b AND regbits st = regbits st" by (rule paint2_keeps_regbits)
  then have "b AND RtoB tg (REG_SP tg) = RtoB tg (REG_SP tg)"
    by (simp add: regopt_reaches_regbits [OF assms(3)])
  then show ?thesis using allreg_choice [OF assms(1,2) _ a assms(5)] by blast
qed

lemma ex_pass1_ok:
  "\<not> isl (regopt_pass1_node amd64 (regopt_init amd64 [0..<32] ex_state0) ex_reg ex_load)"
  by code_simp

lemma ex_pass1_reaches: "regopt_reaches amd64 [0..<32] ex_state0 ex_pass1_state"
proof -
  let ?x = "regopt_pass1_node amd64 (regopt_init amd64 [0..<32] ex_state0) ex_reg ex_load"
  from ex_pass1_ok have "?x = Inr (fst (projr ?x), snd (projr ?x))"
    by (cases ?x) simp_all
  then have "regopt_reaches amd64 [0..<32] ex_state0 (snd (projr ?x))"
    by (rule reach_pass1 [OF reach_init])
  then show ?thesis
    unfolding ex_pass1_state_def by (rule reach_addrs)
qed

lemma ex_pass6:
  "regopt_pass6_region 3 amd64 ex_pass1_state [ex_busy] ex_rgn
     = Some (Inr (64, ex_rgn\<lparr>regno := 38\<rparr>, [ex_busy\<lparr>act := [0, 0, 0]\<rparr>]))"
  by code_simp

lemma ex_pass1_fp: "framepointer_enabled ex_pass1_state"
  by code_simp

theorem allocator_never_assigns_sp_or_frame_pointer_witness:
  "regs_ok amd64 \<and> bitno_ok amd64
   \<and> regopt_reaches amd64 [0..<32] ex_state0 ex_pass1_state
   \<and> regopt_pass6_region 3 amd64 ex_pass1_state [ex_busy] ex_rgn
       = Some (Inr (64, ex_rgn\<lparr>regno := 38\<rparr>, [ex_busy\<lparr>act := [0, 0, 0]\<rparr>]))
   \<and> regno (ex_rgn\<lparr>regno := 38\<rparr>) \<noteq> 0
   \<and> framepointer_enabled ex_pass1_state
   \<and> REG_SP amd64 = 36 \<and> REG_BP amd64 = 37
   \<and> sint (regno (ex_rgn\<lparr>regno := 38\<rparr>)) \<noteq> REG_SP amd64
   \<and> sint (regno (ex_rgn\<lparr>regno := 38\<rparr>)) \<noteq> REG_BP amd64"
proof -
  have a: "regs_ok amd64" by (simp add: regs_ok_def amd64_def)
  have b: "bitno_ok amd64" by (simp add: bitno_ok_def amd64_def bitno32_ok)
  note c = ex_pass1_reaches
  note d = ex_pass6
  have e: "regno (ex_rgn\<lparr>regno := 38\<rparr>) \<noteq> 0" by simp
  note f = ex_pass1_fp
  have g: "REG_SP amd64 = 36" "REG_BP amd64 = 37" by (simp_all add: amd64_def)
  note T = allocator_never_assigns_sp_or_frame_pointer [OF a b c d e]
  from T have h: "sint (regno (ex_rgn\<lparr>regno := 38\<rparr>)) \<noteq> REG_SP amd64" by (rule conjunct1)
  from T f have i: "sint (regno (ex_rgn\<lparr>regno := 38\<rparr>)) \<noteq> REG_BP amd64" by blast
  show ?thesis by (intro conjI; fact)
qed


end
